theory Spec2Isabelle
  imports Main
begin

section \<open>Data model\<close>

text \<open>
  The services of the prison management backend (prisonerService, prisonService,
  behaviourService, visitService, workRecordService) are embedded as functions on an
  explicit store \<open>db\<close>: one list of rows per Sequelize model.  \<open>findByPk\<close>
  is the first row with the key, \<open>instance.update\<close> rewrites the rows with the key,
  \<open>Model.create\<close> appends a row whose key is the table's auto-increment counter.
  Every \<open>throw new Error(...)\<close> of a service is a constructor of \<open>error\<close>; an
  operation returns \<open>Inl e\<close> when the source throws (all writes of the sources come after
  the last throw of the function, so a failed call leaves the store as it was) and
  \<open>Inr db'\<close> with the committed store otherwise.  \<open>new Date()\<close> is the extra
  argument \<open>now\<close>, and the offset of the server's local time from UTC is the extra
  argument \<open>tz\<close> where a source function depends on it.  DATEONLY columns are day
  numbers, TIME columns seconds since midnight.  Columns no claim depends on (names, gender, photos, ...) are left out.
\<close>

datatype user_role = Super_Admin | Prison_Admin | Officer | Records_Keeper | Visitor_Manager

datatype prisoner_status = Active | Released | Transferred | Deceased

datatype payment_status = Payment_Pending | Paid

datatype visit_status = Scheduled | Completed | Cancelled

datatype adjustment_status = Pending | Approved | Rejected | Not_Applicable

datatype behaviour_type = Positive | Negative

type_synonym date = int

text \<open>
  The Prison model (the second model in src/models/Permission.js): \<open>prison_id\<close> is the
  auto-increment key, \<open>prison_name\<close> is unique, \<open>capacity\<close> is an INTEGER that is not
  null, \<open>is_active\<close> a BOOLEAN.
\<close>

record prison =
  prison_id :: nat
  prison_name :: string
  capacity :: int
  is_active :: bool

record prisoner =
  prisoner_id :: nat
  nic :: string
  case_number :: string
  admission_date :: date
  expected_release_date :: "date option"
  actual_release_date :: "date option"
  status :: prisoner_status
  p_prison_id :: nat

record behaviour_record =
  behaviour_id :: nat
  b_prisoner_id :: nat
  b_behaviour_type :: behaviour_type
  incident_date :: date
  sentence_adjustment_days :: int
  adjustment_status :: adjustment_status
  adjustment_approved_at :: "date option"
  b_notes :: "string option"
  recorded_by :: nat

record visit =
  visit_id :: nat
  v_prisoner_id :: nat
  v_visitor_id :: nat
  visit_date :: date
  visit_time_start :: nat
  visit_time_end :: nat
  v_status :: visit_status
  approved_by :: "nat option"
  v_notes :: "string option"

record work_record =
  work_record_id :: nat
  w_prisoner_id :: nat
  task_description :: string
  work_date :: date
  hours_worked :: int
  payment_amount :: int
  w_payment_status :: payment_status
  payment_date :: "date option"
  w_recorded_by :: nat

record db =
  prisons :: "prison list"
  prisoners :: "prisoner list"
  visitors :: "nat list"
  behaviour_records :: "behaviour_record list"
  visits :: "visit list"
  work_records :: "work_record list"
  next_prisoner_id :: nat
  next_behaviour_id :: nat
  next_visit_id :: nat
  next_work_record_id :: nat

datatype error =
    Prison_ID_is_required
  | Prison_not_found
  | Prison_has_reached_maximum_capacity int
  | Prisoner_with_this_NIC_already_exists
  | Prisoner_with_this_case_number_already_exists
  | Prisoner_not_found
  | No_access_to_this_prisoner
  | Only_admin_can_delete_prisoners
  | Only_admin_can_transfer_prisoners
  | Target_prison_not_found
  | Target_prison_has_reached_maximum_capacity int
  | Only_admin_can_release_prisoners
  | Prisoner_is_already_released
  | Only_Super_Admin_can_update_prisons
  | Prison_with_this_name_already_exists
  | Capacity_must_be_a_positive_number
  | Cannot_reduce_capacity_below_current_occupancy nat
  | Behaviour_records_only_for_active_prisoners
  | Behaviour_record_not_found
  | No_access_to_this_behaviour_record
  | Cannot_update_approved_behaviour_record
  | No_pending_sentence_adjustment
  | No_sentence_adjustment_to_approve
  | Visits_only_for_active_prisoners
  | Visitor_not_found
  | Visit_time_conflict
  | Visit_not_found
  | No_access_to_this_visit
  | Cannot_update_visit_with_status visit_status
  | Invalid_visit_status
  | Cannot_delete_completed_visit
  | Visit_is_already_approved
  | Work_records_only_for_active_prisoners
  | Work_record_not_found
  | No_access_to_this_work_record
  | Cannot_update_paid_work_record
  | Cannot_delete_paid_work_record
  | Payment_is_already_approved
  | TypeError_reading_property_of_undefined

section \<open>Store primitives\<close>

definition findPrison :: "db \<Rightarrow> nat \<Rightarrow> prison option" where
  "findPrison d k = List.find (\<lambda>r. prison_id r = k) (prisons d)"

definition findPrisoner :: "db \<Rightarrow> nat \<Rightarrow> prisoner option" where
  "findPrisoner d k = List.find (\<lambda>r. prisoner_id r = k) (prisoners d)"

definition updatePrisonerRow :: "nat \<Rightarrow> (prisoner \<Rightarrow> prisoner) \<Rightarrow> db \<Rightarrow> db" where
  "updatePrisonerRow k f d =
     d\<lparr>prisoners := map (\<lambda>r. if prisoner_id r = k then f r else r) (prisoners d)\<rparr>"

definition updatePrisonRow :: "nat \<Rightarrow> (prison \<Rightarrow> prison) \<Rightarrow> db \<Rightarrow> db" where
  "updatePrisonRow k f d =
     d\<lparr>prisons := map (\<lambda>r. if prison_id r = k then f r else r) (prisons d)\<rparr>"

text \<open>\<open>db.Prisoner.count({ where: { prison_id, status: 'Active' } })\<close>\<close>

definition countActive :: "db \<Rightarrow> nat \<Rightarrow> nat" where
  "countActive d k =
     length (filter (\<lambda>r. p_prison_id r = k \<and> status r = Active) (prisoners d))"

text \<open>JavaScript truthiness of a numeric id that may be absent, and of a string.\<close>

definition truthy_id :: "nat option \<Rightarrow> bool" where
  "truthy_id x = (case x of None \<Rightarrow> False | Some n \<Rightarrow> n \<noteq> 0)"

definition truthy_str :: "string option \<Rightarrow> bool" where
  "truthy_str x = (case x of None \<Rightarrow> False | Some s \<Rightarrow> s \<noteq> [])"

text \<open>checkPrisonAccess, the same function at the head of every service.\<close>

definition checkPrisonAccess :: "nat option \<Rightarrow> nat \<Rightarrow> user_role \<Rightarrow> bool" where
  "checkPrisonAccess userPrisonId prisonerPrisonId userRole =
     (if userRole = Super_Admin then True else userPrisonId = Some prisonerPrisonId)"

section \<open>prisonerService\<close>

record prisoner_data =
  pd_nic :: string
  pd_case_number :: string
  pd_admission_date :: "date option"
  pd_expected_release_date :: "date option"
  pd_prison_id :: "nat option"

definition registerPrisoner ::
  "prisoner_data \<Rightarrow> nat option \<Rightarrow> user_role \<Rightarrow> nat \<Rightarrow> date \<Rightarrow> db \<Rightarrow> error + db" where
  "registerPrisoner prisonerData userPrisonId userRole userId now d =
     (let prisonId = (if userRole = Super_Admin \<and> truthy_id (pd_prison_id prisonerData)
                      then pd_prison_id prisonerData else userPrisonId)
      in case prisonId of
           None \<Rightarrow> Inl Prison_ID_is_required
         | Some pid \<Rightarrow>
             if pid = 0 then Inl Prison_ID_is_required
             else (case findPrison d pid of
               None \<Rightarrow> Inl Prison_not_found
             | Some prison \<Rightarrow>
                 let activePrisoners = countActive d pid;
                     newPrisoner = \<lparr>prisoner_id = next_prisoner_id d,
                       nic = pd_nic prisonerData,
                       case_number = pd_case_number prisonerData,
                       admission_date = (case pd_admission_date prisonerData of
                                           None \<Rightarrow> now | Some a \<Rightarrow> a),
                       expected_release_date = pd_expected_release_date prisonerData,
                       actual_release_date = None,
                       status = Active,
                       p_prison_id = pid\<rparr>;
                     created = d\<lparr>prisoners := prisoners d @ [newPrisoner],
                                 next_prisoner_id := Suc (next_prisoner_id d)\<rparr>
                 in if int activePrisoners \<ge> capacity prison
                    then Inl (Prison_has_reached_maximum_capacity (capacity prison))
                    else (case List.find (\<lambda>r. nic r = pd_nic prisonerData
                                          \<or> case_number r = pd_case_number prisonerData)
                                 (prisoners d) of
                      None \<Rightarrow> Inr created
                    | Some existingPrisoner \<Rightarrow>
                        if nic existingPrisoner = pd_nic prisonerData
                        then Inl Prisoner_with_this_NIC_already_exists
                        else if case_number existingPrisoner = pd_case_number prisonerData
                        then Inl Prisoner_with_this_case_number_already_exists
                        else Inr created)))"

text \<open>
  updatePrisoner hands the request body to \<open>prisoner.update\<close> as it is; the fields
  below are those of updatePrisonerValidation that the store of this model keeps.
\<close>

record prisoner_update =
  pu_nic :: "string option"
  pu_case_number :: "string option"
  pu_expected_release_date :: "date option"
  pu_status :: "prisoner_status option"

definition applyPrisonerUpdate :: "prisoner_update \<Rightarrow> prisoner \<Rightarrow> prisoner" where
  "applyPrisonerUpdate u r =
     r\<lparr>nic := (case pu_nic u of None \<Rightarrow> nic r | Some x \<Rightarrow> x),
       case_number := (case pu_case_number u of None \<Rightarrow> case_number r | Some x \<Rightarrow> x),
       expected_release_date := (case pu_expected_release_date u of
                                   None \<Rightarrow> expected_release_date r | Some x \<Rightarrow> Some x),
       status := (case pu_status u of None \<Rightarrow> status r | Some x \<Rightarrow> x)\<rparr>"

definition updatePrisoner ::
  "nat \<Rightarrow> prisoner_update \<Rightarrow> nat option \<Rightarrow> user_role \<Rightarrow> nat \<Rightarrow> db \<Rightarrow> error + db" where
  "updatePrisoner prisonerId updateData userPrisonId userRole userId d =
     (case findPrisoner d prisonerId of
        None \<Rightarrow> Inl Prisoner_not_found
      | Some prisoner \<Rightarrow>
          if \<not> checkPrisonAccess userPrisonId (p_prison_id prisoner) userRole
          then Inl No_access_to_this_prisoner
          else if truthy_str (pu_nic updateData) \<and> pu_nic updateData \<noteq> Some (nic prisoner)
                  \<and> List.find (\<lambda>r. Some (nic r) = pu_nic updateData
                                     \<and> prisoner_id r \<noteq> prisonerId) (prisoners d) \<noteq> None
          then Inl Prisoner_with_this_NIC_already_exists
          else if truthy_str (pu_case_number updateData)
                  \<and> pu_case_number updateData \<noteq> Some (case_number prisoner)
                  \<and> List.find (\<lambda>r. Some (case_number r) = pu_case_number updateData
                                     \<and> prisoner_id r \<noteq> prisonerId) (prisoners d) \<noteq> None
          then Inl Prisoner_with_this_case_number_already_exists
          else Inr (updatePrisonerRow prisonerId (applyPrisonerUpdate updateData) d))"

definition deletePrisoner ::
  "nat \<Rightarrow> string \<Rightarrow> nat option \<Rightarrow> user_role \<Rightarrow> nat \<Rightarrow> date \<Rightarrow> db \<Rightarrow> error + db" where
  "deletePrisoner prisonerId reason userPrisonId userRole userId now d =
     (if userRole \<noteq> Prison_Admin \<and> userRole \<noteq> Super_Admin
      then Inl Only_admin_can_delete_prisoners
      else case findPrisoner d prisonerId of
        None \<Rightarrow> Inl Prisoner_not_found
      | Some prisoner \<Rightarrow>
          if \<not> checkPrisonAccess userPrisonId (p_prison_id prisoner) userRole
          then Inl No_access_to_this_prisoner
          else let newStatus = (if reason = ''deceased'' then Deceased else Released)
               in Inr (updatePrisonerRow prisonerId
                         (\<lambda>r. r\<lparr>status := newStatus, actual_release_date := Some now\<rparr>) d))"

definition transferPrisoner ::
  "nat \<Rightarrow> nat \<Rightarrow> string \<Rightarrow> nat option \<Rightarrow> user_role \<Rightarrow> nat \<Rightarrow> db \<Rightarrow> error + db" where
  "transferPrisoner prisonerId targetPrisonId transferReason userPrisonId userRole userId d =
     (if userRole \<noteq> Prison_Admin \<and> userRole \<noteq> Super_Admin
      then Inl Only_admin_can_transfer_prisoners
      else case findPrisoner d prisonerId of
        None \<Rightarrow> Inl Prisoner_not_found
      | Some prisoner \<Rightarrow>
          if \<not> checkPrisonAccess userPrisonId (p_prison_id prisoner) userRole
          then Inl No_access_to_this_prisoner
          else (case findPrison d targetPrisonId of
            None \<Rightarrow> Inl Target_prison_not_found
          | Some targetPrison \<Rightarrow>
              let activePrisoners = countActive d targetPrisonId
              in if int activePrisoners \<ge> capacity targetPrison
                 then Inl (Target_prison_has_reached_maximum_capacity (capacity targetPrison))
                 else Inr (updatePrisonerRow prisonerId
                             (\<lambda>r. r\<lparr>p_prison_id := targetPrisonId, status := Active\<rparr>) d)))"

definition releasePrisoner ::
  "nat \<Rightarrow> string \<Rightarrow> string \<Rightarrow> nat option \<Rightarrow> user_role \<Rightarrow> nat \<Rightarrow> date \<Rightarrow> db \<Rightarrow> error + db"
  where
  "releasePrisoner prisonerId releaseReason releaseNotes userPrisonId userRole userId now d =
     (if userRole \<noteq> Prison_Admin \<and> userRole \<noteq> Super_Admin
      then Inl Only_admin_can_release_prisoners
      else case findPrisoner d prisonerId of
        None \<Rightarrow> Inl Prisoner_not_found
      | Some prisoner \<Rightarrow>
          if \<not> checkPrisonAccess userPrisonId (p_prison_id prisoner) userRole
          then Inl No_access_to_this_prisoner
          else if status prisoner = Released then Inl Prisoner_is_already_released
          else Inr (updatePrisonerRow prisonerId
                      (\<lambda>r. r\<lparr>status := Released, actual_release_date := Some now\<rparr>) d))"

section \<open>prisonService\<close>

record prison_update =
  pru_prison_name :: "string option"
  pru_capacity :: "int option"

definition applyPrisonUpdate :: "prison_update \<Rightarrow> prison \<Rightarrow> prison" where
  "applyPrisonUpdate u r =
     r\<lparr>prison_name := (case pru_prison_name u of None \<Rightarrow> prison_name r | Some x \<Rightarrow> x),
       capacity := (case pru_capacity u of None \<Rightarrow> capacity r | Some x \<Rightarrow> x)\<rparr>"

definition updatePrison :: "nat \<Rightarrow> prison_update \<Rightarrow> user_role \<Rightarrow> db \<Rightarrow> error + db" where
  "updatePrison prisonId updateData userRole d =
     (if userRole \<noteq> Super_Admin then Inl Only_Super_Admin_can_update_prisons
      else case findPrison d prisonId of
        None \<Rightarrow> Inl Prison_not_found
      | Some prison \<Rightarrow>
          if truthy_str (pru_prison_name updateData)
             \<and> pru_prison_name updateData \<noteq> Some (prison_name prison)
             \<and> List.find (\<lambda>r. Some (prison_name r) = pru_prison_name updateData
                                \<and> prison_id r \<noteq> prisonId) (prisons d) \<noteq> None
          then Inl Prison_with_this_name_already_exists
          else (case pru_capacity updateData of
            None \<Rightarrow> Inr (updatePrisonRow prisonId (applyPrisonUpdate updateData) d)
          | Some newCapacity \<Rightarrow>
              if newCapacity < 0 then Inl Capacity_must_be_a_positive_number
              else let currentOccupancy = countActive d prisonId
                   in if newCapacity < int currentOccupancy
                      then Inl (Cannot_reduce_capacity_below_current_occupancy currentOccupancy)
                      else Inr (updatePrisonRow prisonId (applyPrisonUpdate updateData) d)))"

section \<open>Eager loading\<close>

text \<open>
  The services read a row together with its prisoner through
  \<open>findByPk(id, { include: [{ model: db.Prisoner, as: 'prisoner', ... }] })\<close>.  The loaded
  prisoner carries the nested association \<open>prison\<close> only when the include list names
  \<open>db.Prison\<close> below the prisoner (getBehaviourRecordById, getVisitById,
  getWorkRecordById do); otherwise \<open>prisoner.prison\<close> is \<open>undefined\<close> and reading
  \<open>prisoner.prison.prison_id\<close> throws a TypeError.  \<open>lp_prison\<close> is the key of the
  nested prison, \<open>None\<close> when it is not loaded.
\<close>

record loaded_prisoner =
  lp_prison_id :: nat
  lp_expected_release_date :: "date option"
  lp_prison :: "nat option"

definition includePrisoner :: "bool \<Rightarrow> db \<Rightarrow> nat \<Rightarrow> loaded_prisoner option" where
  "includePrisoner nested d k =
     map_option (\<lambda>r. \<lparr>lp_prison_id = p_prison_id r,
                       lp_expected_release_date = expected_release_date r,
                       lp_prison = (if nested
                                    then map_option prison_id (findPrison d (p_prison_id r))
                                    else None)\<rparr>)
       (findPrisoner d k)"

section \<open>behaviourService\<close>

definition findBehaviourRecord :: "db \<Rightarrow> nat \<Rightarrow> behaviour_record option" where
  "findBehaviourRecord d k = List.find (\<lambda>r. behaviour_id r = k) (behaviour_records d)"

definition updateBehaviourRow ::
  "nat \<Rightarrow> (behaviour_record \<Rightarrow> behaviour_record) \<Rightarrow> db \<Rightarrow> db" where
  "updateBehaviourRow k f d =
     d\<lparr>behaviour_records :=
         map (\<lambda>r. if behaviour_id r = k then f r else r) (behaviour_records d)\<rparr>"

record behaviour_data =
  bd_prisoner_id :: nat
  bd_behaviour_type :: behaviour_type
  bd_incident_date :: "date option"
  bd_sentence_adjustment_days :: "int option"
  bd_notes :: "string option"

text \<open>\<open>x && x !== 0\<close> for a day count that may be absent.\<close>

definition truthy_days :: "int option \<Rightarrow> bool" where
  "truthy_days x = (case x of None \<Rightarrow> False | Some n \<Rightarrow> n \<noteq> 0)"

definition createBehaviourRecord ::
  "behaviour_data \<Rightarrow> nat \<Rightarrow> nat option \<Rightarrow> user_role \<Rightarrow> date \<Rightarrow> db \<Rightarrow> error + db" where
  "createBehaviourRecord behaviourData userId userPrisonId userRole now d =
     (case findPrisoner d (bd_prisoner_id behaviourData) of
        None \<Rightarrow> Inl Prisoner_not_found
      | Some prisoner \<Rightarrow>
          if status prisoner \<noteq> Active then Inl Behaviour_records_only_for_active_prisoners
          else if \<not> checkPrisonAccess userPrisonId (p_prison_id prisoner) userRole
          then Inl No_access_to_this_prisoner
          else
            let adjustmentStatus =
                  (if truthy_days (bd_sentence_adjustment_days behaviourData)
                   then Pending else Not_Applicable);
                newBehaviourRecord = \<lparr>behaviour_id = next_behaviour_id d,
                  b_prisoner_id = bd_prisoner_id behaviourData,
                  b_behaviour_type = bd_behaviour_type behaviourData,
                  incident_date = (case bd_incident_date behaviourData of
                                     None \<Rightarrow> now | Some x \<Rightarrow> x),
                  sentence_adjustment_days =
                    (case bd_sentence_adjustment_days behaviourData of
                       None \<Rightarrow> 0 | Some n \<Rightarrow> n),
                  adjustment_status = adjustmentStatus,
                  adjustment_approved_at = None,
                  b_notes = bd_notes behaviourData,
                  recorded_by = userId\<rparr>
            in Inr (d\<lparr>behaviour_records := behaviour_records d @ [newBehaviourRecord],
                      next_behaviour_id := Suc (next_behaviour_id d)\<rparr>))"

record behaviour_update =
  bu_behaviour_type :: "behaviour_type option"
  bu_incident_date :: "date option"
  bu_sentence_adjustment_days :: "int option"
  bu_notes :: "string option"

text \<open>
  Lines 434-460 of updateBehaviourRecord: the allowed fields that are defined are
  written, and the adjustment status is recomputed when the day count is among them.
\<close>

definition applyBehaviourUpdate :: "behaviour_update \<Rightarrow> behaviour_record \<Rightarrow> behaviour_record"
  where
  "applyBehaviourUpdate u r =
     r\<lparr>b_behaviour_type := (case bu_behaviour_type u of
                               None \<Rightarrow> b_behaviour_type r | Some x \<Rightarrow> x),
       incident_date := (case bu_incident_date u of None \<Rightarrow> incident_date r | Some x \<Rightarrow> x),
       sentence_adjustment_days := (case bu_sentence_adjustment_days u of
                                      None \<Rightarrow> sentence_adjustment_days r | Some x \<Rightarrow> x),
       b_notes := (case bu_notes u of None \<Rightarrow> b_notes r | Some x \<Rightarrow> Some x),
       adjustment_status := (case bu_sentence_adjustment_days u of
                               None \<Rightarrow> adjustment_status r
                             | Some x \<Rightarrow> if x \<noteq> 0 then Pending else Not_Applicable)\<rparr>"

text \<open>
  The include of updateBehaviourRecord (lines 410-418) loads the prisoner with the
  attribute \<open>prison_id\<close> only and no nested prison; its access check (line 425) reads
  \<open>behaviourRecord.prisoner.prison.prison_id\<close>.
\<close>

definition updateBehaviourRecord ::
  "nat \<Rightarrow> behaviour_update \<Rightarrow> nat option \<Rightarrow> user_role \<Rightarrow> db \<Rightarrow> error + db" where
  "updateBehaviourRecord behaviourRecordId updateData userPrisonId userRole d =
     (case findBehaviourRecord d behaviourRecordId of
        None \<Rightarrow> Inl Behaviour_record_not_found
      | Some behaviourRecord \<Rightarrow>
          (case includePrisoner False d (b_prisoner_id behaviourRecord) of
             None \<Rightarrow> Inl TypeError_reading_property_of_undefined
           | Some prisoner \<Rightarrow>
               (case lp_prison prisoner of
                  None \<Rightarrow> Inl TypeError_reading_property_of_undefined
                | Some prison_pk \<Rightarrow>
                    if \<not> checkPrisonAccess userPrisonId prison_pk userRole
                    then Inl No_access_to_this_behaviour_record
                    else if adjustment_status behaviourRecord = Approved
                    then Inl Cannot_update_approved_behaviour_record
                    else Inr (updateBehaviourRow behaviourRecordId
                                (applyBehaviourUpdate updateData) d))))"

text \<open>
  The date arithmetic of approveSentenceAdjustment (lines 548-559).
  \<open>new Date(prisoner.expected_release_date)\<close> reads the DATEONLY string as midnight UTC of
  its day; \<open>getDate\<close> and \<open>setDate\<close> read and write the day of the month in the
  server's local time; \<open>prisoner.update\<close> writes the Date into the DATEONLY column as
  its local day.  \<open>tz\<close> is the offset of the server's local time from UTC in minutes,
  east positive, at that midnight UTC; \<open>localDay tz day\<close> is the local day at that
  instant: \<open>day\<close> itself at UTC and east of it, the day before west of it.
\<close>

definition localDay :: "int \<Rightarrow> date \<Rightarrow> date" where
  "localDay tz day = (day * 1440 + tz) div 1440"

definition shiftedEndDate :: "int \<Rightarrow> date \<Rightarrow> int \<Rightarrow> date" where
  "shiftedEndDate tz currentEndDate adjustmentDays = localDay tz currentEndDate + adjustmentDays"

definition approveSentenceAdjustment ::
  "nat \<Rightarrow> string option \<Rightarrow> nat option \<Rightarrow> user_role \<Rightarrow> date \<Rightarrow> int \<Rightarrow> db \<Rightarrow> error + db"
  where
  "approveSentenceAdjustment behaviourRecordId notes userPrisonId userRole now tz d =
     (case findBehaviourRecord d behaviourRecordId of
        None \<Rightarrow> Inl Behaviour_record_not_found
      | Some behaviourRecord \<Rightarrow>
          (case includePrisoner False d (b_prisoner_id behaviourRecord) of
             None \<Rightarrow> Inl TypeError_reading_property_of_undefined
           | Some prisoner \<Rightarrow>
               if \<not> checkPrisonAccess userPrisonId (lp_prison_id prisoner) userRole
               then Inl No_access_to_this_behaviour_record
               else if adjustment_status behaviourRecord \<noteq> Pending
               then Inl No_pending_sentence_adjustment
               else if sentence_adjustment_days behaviourRecord = 0
               then Inl No_sentence_adjustment_to_approve
               else
                 let adjustmentDays = sentence_adjustment_days behaviourRecord;
                     d1 = (case lp_expected_release_date prisoner of
                             None \<Rightarrow> d
                           | Some currentEndDate \<Rightarrow>
                               updatePrisonerRow (b_prisoner_id behaviourRecord)
                                 (\<lambda>r. r\<lparr>expected_release_date :=
                                          Some (shiftedEndDate tz currentEndDate
                                                  adjustmentDays)\<rparr>) d)
                 in Inr (updateBehaviourRow behaviourRecordId
                           (\<lambda>r. r\<lparr>adjustment_status := Approved,
                                  adjustment_approved_at := Some now,
                                  b_notes := (if truthy_str notes then notes else b_notes r)\<rparr>)
                           d1)))"

text \<open>
  \<open>reason ? `REJECTION REASON: ${reason}${notes ? '\\n\\n' + notes : ''}` : notes\<close>
\<close>

definition rejectionNotes :: "string option \<Rightarrow> string option \<Rightarrow> string option" where
  "rejectionNotes reason notes =
     (case reason of
        None \<Rightarrow> notes
      | Some why \<Rightarrow>
          if why = [] then notes
          else Some (''REJECTION REASON: '' @ why @
                 (case notes of
                    None \<Rightarrow> []
                  | Some old \<Rightarrow> if old = [] then [] else [CHR 0x0A, CHR 0x0A] @ old)))"

text \<open>
  rejectSentenceAdjustment loads the prisoner as updateBehaviourRecord does (lines
  595-603) and reads \<open>behaviourRecord.prisoner.prison.prison_id\<close> (line 610).
\<close>

definition rejectSentenceAdjustment ::
  "nat \<Rightarrow> string option \<Rightarrow> nat option \<Rightarrow> user_role \<Rightarrow> db \<Rightarrow> error + db" where
  "rejectSentenceAdjustment behaviourRecordId reason userPrisonId userRole d =
     (case findBehaviourRecord d behaviourRecordId of
        None \<Rightarrow> Inl Behaviour_record_not_found
      | Some behaviourRecord \<Rightarrow>
          (case includePrisoner False d (b_prisoner_id behaviourRecord) of
             None \<Rightarrow> Inl TypeError_reading_property_of_undefined
           | Some prisoner \<Rightarrow>
               (case lp_prison prisoner of
                  None \<Rightarrow> Inl TypeError_reading_property_of_undefined
                | Some prison_pk \<Rightarrow>
                    if \<not> checkPrisonAccess userPrisonId prison_pk userRole
                    then Inl No_access_to_this_behaviour_record
                    else if adjustment_status behaviourRecord \<noteq> Pending
                    then Inl No_pending_sentence_adjustment
                    else Inr (updateBehaviourRow behaviourRecordId
                                (\<lambda>r. r\<lparr>adjustment_status := Rejected,
                                       b_notes :=
                                         rejectionNotes reason (b_notes r)\<rparr>) d))))"

section \<open>visitService\<close>

definition findVisit :: "db \<Rightarrow> nat \<Rightarrow> visit option" where
  "findVisit d k = List.find (\<lambda>r. visit_id r = k) (visits d)"

definition updateVisitRow :: "nat \<Rightarrow> (visit \<Rightarrow> visit) \<Rightarrow> db \<Rightarrow> db" where
  "updateVisitRow k f d =
     d\<lparr>visits := map (\<lambda>r. if visit_id r = k then f r else r) (visits d)\<rparr>"

text \<open>
  The \<open>Op.or\<close> of the conflict query of scheduleVisit (lines 459-476) and of updateVisit
  (lines 551-568): \<open>BETWEEN\<close>, \<open>Op.lte\<close> and \<open>Op.gte\<close> include their bounds.
\<close>

definition timeConflict :: "nat \<Rightarrow> nat \<Rightarrow> visit \<Rightarrow> bool" where
  "timeConflict timeStart timeEnd r =
     ((timeStart \<le> visit_time_start r \<and> visit_time_start r \<le> timeEnd)
      \<or> (timeStart \<le> visit_time_end r \<and> visit_time_end r \<le> timeEnd)
      \<or> (visit_time_start r \<le> timeStart \<and> visit_time_end r \<ge> timeEnd))"

text \<open>
  The whole \<open>where\<close> of the query; \<open>excludeVisitId\<close> is the \<open>visit_id: { [Op.ne]: visitId }\<close>
  of updateVisit, absent in scheduleVisit.
\<close>

definition conflictingVisit ::
  "db \<Rightarrow> nat option \<Rightarrow> nat \<Rightarrow> date \<Rightarrow> nat \<Rightarrow> nat \<Rightarrow> visit option" where
  "conflictingVisit d excludeVisitId prisonerId visitDate timeStart timeEnd =
     List.find (\<lambda>r. (case excludeVisitId of None \<Rightarrow> True | Some k \<Rightarrow> visit_id r \<noteq> k)
                    \<and> v_prisoner_id r = prisonerId
                    \<and> visit_date r = visitDate
                    \<and> v_status r = Scheduled
                    \<and> timeConflict timeStart timeEnd r) (visits d)"

record visit_data =
  vd_prisoner_id :: nat
  vd_visitor_id :: nat
  vd_visit_date :: date
  vd_visit_time_start :: nat
  vd_visit_time_end :: nat
  vd_notes :: "string option"

definition scheduleVisit ::
  "visit_data \<Rightarrow> nat \<Rightarrow> nat option \<Rightarrow> user_role \<Rightarrow> db \<Rightarrow> error + db" where
  "scheduleVisit visitData userId userPrisonId userRole d =
     (case findPrisoner d (vd_prisoner_id visitData) of
        None \<Rightarrow> Inl Prisoner_not_found
      | Some prisoner \<Rightarrow>
          if status prisoner \<noteq> Active then Inl Visits_only_for_active_prisoners
          else if \<not> checkPrisonAccess userPrisonId (p_prison_id prisoner) userRole
          then Inl No_access_to_this_prisoner
          else if vd_visitor_id visitData \<notin> set (visitors d) then Inl Visitor_not_found
          else (case conflictingVisit d None (vd_prisoner_id visitData)
                       (vd_visit_date visitData) (vd_visit_time_start visitData)
                       (vd_visit_time_end visitData) of
            Some c \<Rightarrow> Inl Visit_time_conflict
          | None \<Rightarrow>
              let newVisit = \<lparr>visit_id = next_visit_id d,
                    v_prisoner_id = vd_prisoner_id visitData,
                    v_visitor_id = vd_visitor_id visitData,
                    visit_date = vd_visit_date visitData,
                    visit_time_start = vd_visit_time_start visitData,
                    visit_time_end = vd_visit_time_end visitData,
                    v_status = Scheduled,
                    approved_by = Some userId,
                    v_notes = (if truthy_str (vd_notes visitData)
                               then vd_notes visitData else None)\<rparr>
              in Inr (d\<lparr>visits := visits d @ [newVisit],
                        next_visit_id := Suc (next_visit_id d)\<rparr>)))"



text \<open>
  A date or time of the request body is a non-empty string (updateVisitValidation), so
  it is truthy whenever it is defined; a row found by \<open>findOne\<close> is truthy.
\<close>

definition provided :: "'a option \<Rightarrow> bool" where
  "provided x = (case x of None \<Rightarrow> False | Some v \<Rightarrow> True)"


text \<open>\<open>Object.values(VISIT_STATUS).includes(status)\<close> on the string of the request.\<close>

definition visit_status_of :: "string \<Rightarrow> visit_status option" where
  "visit_status_of s =
     (if s = ''Scheduled'' then Some Scheduled
      else if s = ''Completed'' then Some Completed
      else if s = ''Cancelled'' then Some Cancelled
      else None)"

definition updateVisitStatus ::
  "nat \<Rightarrow> string \<Rightarrow> string option \<Rightarrow> nat option \<Rightarrow> user_role \<Rightarrow> db \<Rightarrow> error + db" where
  "updateVisitStatus visitId status_str notes userPrisonId userRole d =
     (case findVisit d visitId of
        None \<Rightarrow> Inl Visit_not_found
      | Some visit \<Rightarrow>
          (case includePrisoner False d (v_prisoner_id visit) of
             None \<Rightarrow> Inl TypeError_reading_property_of_undefined
           | Some prisoner \<Rightarrow>
               if \<not> checkPrisonAccess userPrisonId (lp_prison_id prisoner) userRole
               then Inl No_access_to_this_visit
               else (case visit_status_of status_str of
                 None \<Rightarrow> Inl Invalid_visit_status
               | Some new_status \<Rightarrow>
                   Inr (updateVisitRow visitId
                          (\<lambda>r. r\<lparr>v_status := new_status,
                                 v_notes := (if truthy_str notes then notes else v_notes r)\<rparr>)
                          d))))"



section \<open>workRecordService\<close>








section \<open>Properties and example stores\<close>

text \<open>What a call leaves in the store: the committed store, or the old one when it threw.\<close>

definition committed :: "db \<Rightarrow> error + db \<Rightarrow> db" where
  "committed d res = (case res of Inl e \<Rightarrow> d | Inr d' \<Rightarrow> d')"

definition succeeded :: "error + db \<Rightarrow> bool" where
  "succeeded res = (case res of Inl e \<Rightarrow> False | Inr d' \<Rightarrow> True)"

definition statusAndPrison :: "db \<Rightarrow> nat \<Rightarrow> (prisoner_status \<times> nat \<times> date option) option" where
  "statusAndPrison d k =
     map_option (\<lambda>r. (status r, p_prison_id r, actual_release_date r)) (findPrisoner d k)"

definition inmate :: "nat \<Rightarrow> string \<Rightarrow> prisoner_status \<Rightarrow> date option \<Rightarrow> nat \<Rightarrow> prisoner" where
  "inmate k tag st rel pid =
     \<lparr>prisoner_id = k, nic = ''19850000000'' @ tag, case_number = ''HC-2024-'' @ tag,
      admission_date = 19000, expected_release_date = Some 21000,
      actual_release_date = rel, status = st, p_prison_id = pid\<rparr>"

text \<open>
  A prison of capacity 1 that holds one Active, one Released and one Deceased prisoner,
  and a second prison with room.
\<close>

definition lifecycle_db :: db where
  "lifecycle_db =
     \<lparr>prisons = [\<lparr>prison_id = 1, prison_name = ''Welikada'', capacity = 1, is_active = True\<rparr>,
                 \<lparr>prison_id = 2, prison_name = ''Bogambara'', capacity = 5, is_active = True\<rparr>],
      prisoners = [inmate 1 ''1'' Active None 1, inmate 2 ''2'' Released (Some 20000) 1,
                   inmate 3 ''3'' Deceased (Some 20010) 1],
      visitors = [1], behaviour_records = [], visits = [], work_records = [],
      next_prisoner_id = 4, next_behaviour_id = 1, next_visit_id = 1,
      next_work_record_id = 1\<rparr>"

definition only_status :: "prisoner_status \<Rightarrow> prisoner_update" where
  "only_status st = \<lparr>pu_nic = None, pu_case_number = None,
                      pu_expected_release_date = None, pu_status = Some st\<rparr>"

text \<open>A TIME value \<open>hh:mm:00\<close> in seconds.\<close>

definition hm :: "nat \<Rightarrow> nat \<Rightarrow> nat" where
  "hm h m = h * 3600 + m * 60"

text \<open>Overlap of two windows in the half-open sense of the spec.\<close>

definition windowsOverlap :: "visit \<Rightarrow> visit \<Rightarrow> bool" where
  "windowsOverlap a b =
     (visit_time_start a < visit_time_end b \<and> visit_time_end a > visit_time_start b)"

text \<open>The pairs of Scheduled visits of one prisoner on one date whose windows overlap.\<close>

definition overlappingScheduled :: "db \<Rightarrow> (nat \<times> nat) list" where
  "overlappingScheduled d =
     [(visit_id a, visit_id b). a \<leftarrow> visits d, b \<leftarrow> visits d,
        visit_id a < visit_id b \<and> v_prisoner_id a = v_prisoner_id b
        \<and> visit_date a = visit_date b \<and> v_status a = Scheduled \<and> v_status b = Scheduled
        \<and> windowsOverlap a b]"

definition otherThan :: "nat option \<Rightarrow> visit \<Rightarrow> bool" where
  "otherThan excludeVisitId r =
     (case excludeVisitId of None \<Rightarrow> True | Some k \<Rightarrow> visit_id r \<noteq> k)"

text \<open>One Active prisoner, two visitors, no visit yet; day 20098 is 2025-01-10.\<close>

definition visit_db :: db where
  "visit_db =
     \<lparr>prisons = [\<lparr>prison_id = 1, prison_name = ''Welikada'', capacity = 5, is_active = True\<rparr>],
      prisoners = [inmate 1 ''1'' Active None 1],
      visitors = [1, 2], behaviour_records = [], visits = [], work_records = [],
      next_prisoner_id = 2, next_behaviour_id = 1, next_visit_id = 1,
      next_work_record_id = 1\<rparr>"

definition booking :: "nat \<Rightarrow> nat \<Rightarrow> nat \<Rightarrow> visit_data" where
  "booking visitor timeStart timeEnd =
     \<lparr>vd_prisoner_id = 1, vd_visitor_id = visitor, vd_visit_date = 20098,
      vd_visit_time_start = timeStart, vd_visit_time_end = timeEnd, vd_notes = None\<rparr>"

text \<open>
  Visit A 09:00-09:30 is booked, cancelled, visit B 09:15-09:45 is booked, and A is set
  back to Scheduled.
\<close>

definition visit_A_booked :: db where
  "visit_A_booked =
     committed visit_db (scheduleVisit (booking 1 (hm 9 0) (hm 9 30)) 7 (Some 1) Visitor_Manager visit_db)"

definition visit_A_cancelled :: db where
  "visit_A_cancelled =
     committed visit_A_booked
       (updateVisitStatus 1 ''Cancelled'' None (Some 1) Visitor_Manager visit_A_booked)"

definition visit_B_booked :: db where
  "visit_B_booked =
     committed visit_A_cancelled
       (scheduleVisit (booking 2 (hm 9 15) (hm 9 45)) 7 (Some 1) Visitor_Manager visit_A_cancelled)"

definition visit_A_rescheduled :: db where
  "visit_A_rescheduled =
     committed visit_B_booked
       (updateVisitStatus 1 ''Scheduled'' None (Some 1) Visitor_Manager visit_B_booked)"

text \<open>
  The day number of a calendar date (days since 1970-01-01, proleptic Gregorian
  calendar): what \<open>new Date('yyyy-mm-dd')\<close> holds, up to the factor 86400000.
  \<open>setDate(getDate() + n)\<close> adds \<open>n\<close> to it.
\<close>

definition days_from_civil :: "int \<Rightarrow> int \<Rightarrow> int \<Rightarrow> date" where
  "days_from_civil y m dd =
     (let y' = (if m \<le> 2 then y - 1 else y);
          era = y' div 400;
          yoe = y' - era * 400;
          doy = (153 * (if m > 2 then m - 3 else m + 9) + 2) div 5 + dd - 1;
          doe = yoe * 365 + yoe div 4 - yoe div 100 + doy
      in era * 146097 + doe - 719468)"

definition adjustmentOf :: "db \<Rightarrow> nat \<Rightarrow> (adjustment_status \<times> date option) option" where
  "adjustmentOf d k =
     map_option (\<lambda>r. (adjustment_status r, adjustment_approved_at r))
       (findBehaviourRecord d k)"

definition adjustmentStatusOf :: "db \<Rightarrow> nat \<Rightarrow> adjustment_status option" where
  "adjustmentStatusOf d k = map_option adjustment_status (findBehaviourRecord d k)"

definition expectedReleaseOf :: "db \<Rightarrow> nat \<Rightarrow> date option option" where
  "expectedReleaseOf d k = map_option expected_release_date (findPrisoner d k)"

text \<open>The moves of an adjustment status that the spec allows between two stores.\<close>

fun allowedMove :: "adjustment_status \<Rightarrow> adjustment_status \<Rightarrow> bool" where
  "allowedMove Pending Approved = True"
| "allowedMove Pending Rejected = True"
| "allowedMove s s' = (s = s')"

text \<open>The operations of behaviourService that write a behaviour record, as commands.\<close>

datatype behaviour_op =
    Create behaviour_data nat "nat option" user_role date
  | Update nat behaviour_update "nat option" user_role
  | Approve nat "string option" "nat option" user_role date int
  | Reject nat "string option" "nat option" user_role

fun behaviourStep :: "behaviour_op \<Rightarrow> db \<Rightarrow> db" where
  "behaviourStep (Create behaviourData userId userPrisonId userRole now) d =
     committed d (createBehaviourRecord behaviourData userId userPrisonId userRole now d)"
| "behaviourStep (Update k updateData userPrisonId userRole) d =
     committed d (updateBehaviourRecord k updateData userPrisonId userRole d)"
| "behaviourStep (Approve k notes userPrisonId userRole now tz) d =
     committed d (approveSentenceAdjustment k notes userPrisonId userRole now tz d)"
| "behaviourStep (Reject k reason userPrisonId userRole) d =
     committed d (rejectSentenceAdjustment k reason userPrisonId userRole d)"

fun behaviourRun :: "behaviour_op list \<Rightarrow> db \<Rightarrow> db" where
  "behaviourRun [] d = d"
| "behaviourRun (c # cs) d = behaviourRun cs (behaviourStep c d)"

text \<open>
  Prisoner 1 (Active, prison 1) expects release on 2025-06-01 and has the Pending
  behaviour record 1 of -10 days; prisoner 2 has no expected release date and the
  Pending record 2 of +5 days; record 3 of prisoner 1 is Rejected.
\<close>

definition behaviour_db :: db where
  "behaviour_db =
     \<lparr>prisons = [\<lparr>prison_id = 1, prison_name = ''Welikada'', capacity = 5, is_active = True\<rparr>],
      prisoners = [(inmate 1 ''1'' Active None 1)
                     \<lparr>expected_release_date := Some (days_from_civil 2025 6 1)\<rparr>,
                   (inmate 2 ''2'' Active None 1)\<lparr>expected_release_date := None\<rparr>],
      visitors = [],
      behaviour_records =
        [\<lparr>behaviour_id = 1, b_prisoner_id = 1, b_behaviour_type = Positive,
          incident_date = 20000, sentence_adjustment_days = - 10,
          adjustment_status = Pending, adjustment_approved_at = None,
          b_notes = None, recorded_by = 7\<rparr>,
         \<lparr>behaviour_id = 2, b_prisoner_id = 2, b_behaviour_type = Negative,
          incident_date = 20001, sentence_adjustment_days = 5,
          adjustment_status = Pending, adjustment_approved_at = None,
          b_notes = None, recorded_by = 7\<rparr>,
         \<lparr>behaviour_id = 3, b_prisoner_id = 1, b_behaviour_type = Negative,
          incident_date = 20002, sentence_adjustment_days = 3,
          adjustment_status = Rejected, adjustment_approved_at = None,
          b_notes = None, recorded_by = 7\<rparr>],
      visits = [], work_records = [],
      next_prisoner_id = 3, next_behaviour_id = 4, next_visit_id = 1,
      next_work_record_id = 1\<rparr>"

definition days_only :: "int \<Rightarrow> behaviour_update" where
  "days_only n = \<lparr>bu_behaviour_type = None, bu_incident_date = None,
                   bu_sentence_adjustment_days = Some n, bu_notes = None\<rparr>"




text \<open>The store an approval commits (lines 545-567 of approveSentenceAdjustment).\<close>

definition approvedStore ::
  "nat \<Rightarrow> string option \<Rightarrow> date \<Rightarrow> int \<Rightarrow> behaviour_record \<Rightarrow> prisoner \<Rightarrow> db \<Rightarrow> db"
  where
  "approvedStore k notes now tz br p d =
     updateBehaviourRow k
       (\<lambda>r. r\<lparr>adjustment_status := Approved, adjustment_approved_at := Some now,
              b_notes := (if truthy_str notes then notes else b_notes r)\<rparr>)
       (case expected_release_date p of
          None \<Rightarrow> d
        | Some currentEndDate \<Rightarrow>
            updatePrisonerRow (b_prisoner_id br)
              (\<lambda>r. r\<lparr>expected_release_date :=
                       Some (shiftedEndDate tz currentEndDate
                               (sentence_adjustment_days br))\<rparr>) d)"

text \<open>Offsets of the server's local time: Sri Lanka (+05:30), UTC, New York in June (-04:00).\<close>

definition tz_Colombo :: int where
  "tz_Colombo = 330"

definition tz_UTC :: int where
  "tz_UTC = 0"

definition tz_New_York :: int where
  "tz_New_York = - 240"





text \<open>
  The capacity invariant of the spec: no prison holds more Active prisoners than its
  capacity.  \<open>uniqueKeys\<close> is the primary-key constraint of the two tables.
\<close>

definition capacityRespected :: "db \<Rightarrow> bool" where
  "capacityRespected d =
     list_all (\<lambda>pr. int (countActive d (prison_id pr)) \<le> capacity pr) (prisons d)"

definition uniqueKeys :: "db \<Rightarrow> bool" where
  "uniqueKeys d =
     (distinct (map prison_id (prisons d)) \<and> distinct (map prisoner_id (prisoners d)))"


section \<open>Lemmas on the store primitives\<close>

lemmas lifecycle_simps = committed_def succeeded_def statusAndPrison_def inmate_def
  lifecycle_db_def only_status_def countActive_def findPrison_def findPrisoner_def
  checkPrisonAccess_def truthy_str_def truthy_id_def updatePrisonerRow_def updatePrisonRow_def

lemmas visit_simps = committed_def succeeded_def inmate_def hm_def visit_db_def booking_def
  findPrisoner_def findVisit_def checkPrisonAccess_def truthy_str_def truthy_id_def
  includePrisoner_def updateVisitRow_def conflictingVisit_def timeConflict_def provided_def
  scheduleVisit_def updateVisitStatus_def visit_status_of_def

lemma provided_find: "provided (List.find P xs) = (\<exists>x\<in>set xs. P x)"
  by (induction xs) (auto simp: provided_def)

lemma find_rewritten:
  assumes "\<And>r. key (f r) = key r"
  shows "List.find (\<lambda>r. key r = k) (map (\<lambda>r. if key r = j then f r else r) xs)
         = map_option (\<lambda>r. if key r = j then f r else r) (List.find (\<lambda>r. key r = k) xs)"
  using assms by (induction xs) auto

lemma find_appended:
  "List.find P xs = Some y \<Longrightarrow> List.find P (xs @ [x]) = Some y"
  by (induction xs) (auto split: if_splits)


lemma findPrisoner_includePrisoner:
  "findPrisoner d k = Some p \<Longrightarrow>
   includePrisoner False d k = Some \<lparr>lp_prison_id = p_prison_id p,
      lp_expected_release_date = expected_release_date p, lp_prison = None\<rparr>"
  by (simp add: includePrisoner_def)

lemma findPrisoner_key: "findPrisoner d k = Some p \<Longrightarrow> prisoner_id p = k"
  by (auto simp: findPrisoner_def find_Some_iff)

lemma findPrisoner_updated:
  assumes "findPrisoner d k = Some p" "\<And>r. prisoner_id (f r) = prisoner_id r"
  shows "findPrisoner (updatePrisonerRow k f d) k = Some (f p)"
  using assms findPrisoner_key[OF assms(1)]
  by (simp add: findPrisoner_def updatePrisonerRow_def find_rewritten[where key = prisoner_id])

section \<open>Capacity and lifecycle (prisonerService, prisonService)\<close>

text \<open>
  The capacity guards: registerPrisoner and transferPrisoner commit only into a prison
  that has room, and throw the capacity error on a full one; updatePrison commits a new
  capacity only when it covers the current occupancy.  Each of the three keeps the
  capacity invariant.
\<close>

lemma findPrison_unique:
  assumes "distinct (map prison_id (prisons d))" "findPrison d k = Some pr"
    "pr' \<in> set (prisons d)" "prison_id pr' = k"
  shows "pr' = pr"
proof -
  have "pr \<in> set (prisons d)" "prison_id pr = k"
    using assms(2) by (auto simp: findPrison_def find_Some_iff)
  then show ?thesis
    using assms(1,3,4) by (auto simp: distinct_map inj_on_def)
qed

lemma registerPrisoner_guard:
  assumes "registerPrisoner prisonerData userPrisonId userRole userId now d = Inr d'"
  shows "\<exists>pid pr. findPrison d pid = Some pr \<and> int (countActive d pid) < capacity pr
           \<and> prisons d' = prisons d
           \<and> (\<exists>new. prisoners d' = prisoners d @ [new] \<and> p_prison_id new = pid)"
  using assms unfolding registerPrisoner_def
  by (auto split: option.splits if_splits simp: Let_def)

lemma registerPrisoner_full:
  assumes "findPrison d pid = Some pr" "int (countActive d pid) \<ge> capacity pr"
    and "(if userRole = Super_Admin \<and> truthy_id (pd_prison_id prisonerData)
          then pd_prison_id prisonerData else userPrisonId) = Some pid" "pid \<noteq> 0"
  shows "registerPrisoner prisonerData userPrisonId userRole userId now d
           = Inl (Prison_has_reached_maximum_capacity (capacity pr))"
  using assms unfolding registerPrisoner_def by (simp add: Let_def)

lemma transferPrisoner_guard:
  assumes "transferPrisoner prisonerId targetPrisonId transferReason userPrisonId userRole userId d = Inr d'"
  shows "\<exists>pr. findPrison d targetPrisonId = Some pr
           \<and> int (countActive d targetPrisonId) < capacity pr
           \<and> d' = updatePrisonerRow prisonerId
                     (\<lambda>r. r\<lparr>p_prison_id := targetPrisonId, status := Active\<rparr>) d"
  using assms unfolding transferPrisoner_def
  by (auto split: option.splits if_splits simp: Let_def)

lemma transferPrisoner_full:
  assumes "findPrison d targetPrisonId = Some pr" "int (countActive d targetPrisonId) \<ge> capacity pr"
  shows "transferPrisoner prisonerId targetPrisonId transferReason userPrisonId userRole userId d
           \<in> Inl ` {Only_admin_can_transfer_prisoners, Prisoner_not_found,
                       No_access_to_this_prisoner,
                       Target_prison_has_reached_maximum_capacity (capacity pr)}"
  using assms unfolding transferPrisoner_def
  by (auto split: option.splits simp: Let_def)

lemma updatePrison_guard:
  assumes "updatePrison prisonId updateData userRole d = Inr d'"
  shows "d' = updatePrisonRow prisonId (applyPrisonUpdate updateData) d
         \<and> (case pru_capacity updateData of None \<Rightarrow> True
             | Some c \<Rightarrow> int (countActive d prisonId) \<le> c)"
  using assms unfolding updatePrison_def
  by (auto split: option.splits if_splits simp: Let_def)

lemma count_moved:
  assumes "distinct (map prisoner_id xs)"
  shows "length (filter (\<lambda>r. p_prison_id r = k \<and> status r = Active)
                  (map (\<lambda>r. if prisoner_id r = j
                            then r\<lparr>p_prison_id := t, status := Active\<rparr> else r) xs))
         \<le> length (filter (\<lambda>r. p_prison_id r = k \<and> status r = Active) xs)
            + (if k = t then 1 else 0)"
  using assms
proof (induction xs)
  case Nil
  then show ?case by simp
next
  case (Cons x xs)
  show ?case
  proof (cases "prisoner_id x = j")
    case True
    then have "\<forall>r\<in>set xs. prisoner_id r \<noteq> j" using Cons.prems by (auto simp: image_iff)
    then have "map (\<lambda>r. if prisoner_id r = j
                            then r\<lparr>p_prison_id := t, status := Active\<rparr> else r) xs = xs"
      by (simp add: map_idI)
    then show ?thesis using True by auto
  next
    case False
    have "distinct (map prisoner_id xs)" using Cons.prems by simp
    from Cons.IH[OF this] False show ?thesis by auto
  qed
qed

lemma registerPrisoner_keeps_capacity:
  assumes inv: "capacityRespected d" and uniq: "uniqueKeys d"
    and ok: "registerPrisoner prisonerData userPrisonId userRole userId now d = Inr d'"
  shows "capacityRespected d'"
proof -
  from registerPrisoner_guard[OF ok] obtain pid pr new where
    f: "findPrison d pid = Some pr" and lt: "int (countActive d pid) < capacity pr"
    and ps: "prisons d' = prisons d" and rs: "prisoners d' = prisoners d @ [new]"
    and np: "p_prison_id new = pid"
    by blast
  have "int (countActive d' (prison_id x)) \<le> capacity x" if x: "x \<in> set (prisons d)" for x
  proof (cases "prison_id x = pid")
    case True
    then have "x = pr" using findPrison_unique[OF _ f x] uniq by (simp add: uniqueKeys_def)
    then show ?thesis using lt True np by (simp add: countActive_def rs)
  next
    case False
    have "int (countActive d (prison_id x)) \<le> capacity x"
      using inv x by (simp add: capacityRespected_def list_all_iff)
    then show ?thesis using False np by (simp add: countActive_def rs)
  qed
  then show ?thesis by (simp add: capacityRespected_def list_all_iff ps)
qed

lemma transferPrisoner_keeps_capacity:
  assumes inv: "capacityRespected d" and uniq: "uniqueKeys d"
    and ok: "transferPrisoner prisonerId targetPrisonId transferReason userPrisonId userRole
               userId d = Inr d'"
  shows "capacityRespected d'"
proof -
  from transferPrisoner_guard[OF ok] obtain pr where
    f: "findPrison d targetPrisonId = Some pr"
    and lt: "int (countActive d targetPrisonId) < capacity pr"
    and d': "d' = updatePrisonerRow prisonerId
                     (\<lambda>r. r\<lparr>p_prison_id := targetPrisonId, status := Active\<rparr>) d"
    by blast
  have dist: "distinct (map prisoner_id (prisoners d))" using uniq by (simp add: uniqueKeys_def)
  have bound: "countActive d' k \<le> countActive d k + (if k = targetPrisonId then 1 else 0)" for k
    unfolding d' countActive_def updatePrisonerRow_def using count_moved[OF dist] by simp
  have "int (countActive d' (prison_id x)) \<le> capacity x" if x: "x \<in> set (prisons d)" for x
  proof (cases "prison_id x = targetPrisonId")
    case True
    then have "x = pr" using findPrison_unique[OF _ f x] uniq by (simp add: uniqueKeys_def)
    then show ?thesis using lt True bound[of targetPrisonId] by simp
  next
    case False
    have "int (countActive d (prison_id x)) \<le> capacity x"
      using inv x by (simp add: capacityRespected_def list_all_iff)
    then show ?thesis using False bound[of "prison_id x"] by simp
  qed
  then show ?thesis by (simp add: capacityRespected_def list_all_iff d' updatePrisonerRow_def)
qed

lemma updatePrison_keeps_capacity:
  assumes inv: "capacityRespected d"
    and ok: "updatePrison prisonId updateData userRole d = Inr d'"
  shows "capacityRespected d'"
proof -
  from updatePrison_guard[OF ok] have
    d': "d' = updatePrisonRow prisonId (applyPrisonUpdate updateData) d"
    and c: "case pru_capacity updateData of None \<Rightarrow> True
            | Some c \<Rightarrow> int (countActive d prisonId) \<le> c"
    by blast+
  have cnt: "countActive d' k = countActive d k" for k
    by (simp add: d' countActive_def updatePrisonRow_def)
  have old: "int (countActive d (prison_id x)) \<le> capacity x" if "x \<in> set (prisons d)" for x
    using inv that by (simp add: capacityRespected_def list_all_iff)
  show ?thesis
    unfolding capacityRespected_def list_all_iff cnt
    using old c
    by (auto simp: d' updatePrisonRow_def applyPrisonUpdate_def split: option.splits)
qed

text \<open>
  C1.  The claim: for every facility the number of Active prisoners never exceeds the
  capacity after any committed operation.  registerPrisoner, transferPrisoner and
  updatePrison check this; updatePrisoner writes the \<open>status\<close> of the request body
  with no capacity check.  In \<open>lifecycle_db\<close> prison 1 has capacity 1 and one Active
  prisoner; the admin of prison 1 sets the Released prisoner 2 back to Active through
  updatePrisoner: the call commits and prison 1 then holds 2 Active prisoners.
\<close>

theorem C1_updatePrisoner_overfills:
  "uniqueKeys lifecycle_db \<and> capacityRespected lifecycle_db
   \<and> countActive lifecycle_db 1 = 1
   \<and> map_option capacity (findPrison lifecycle_db 1) = Some 1
   \<and> succeeded (updatePrisoner 2 (only_status Active) (Some 1) Prison_Admin 9 lifecycle_db)
   \<and> countActive (committed lifecycle_db
         (updatePrisoner 2 (only_status Active) (Some 1) Prison_Admin 9 lifecycle_db)) 1 = 2
   \<and> map_option capacity (findPrison (committed lifecycle_db
         (updatePrisoner 2 (only_status Active) (Some 1) Prison_Admin 9 lifecycle_db)) 1) = Some 1
   \<and> \<not> capacityRespected (committed lifecycle_db
         (updatePrisoner 2 (only_status Active) (Some 1) Prison_Admin 9 lifecycle_db))"
  by (simp add: lifecycle_simps updatePrisoner_def applyPrisonerUpdate_def
        capacityRespected_def uniqueKeys_def)

text \<open>What transferPrisoner does for an admin with access, whatever the status.\<close>

lemma transferPrisoner_any_status:
  assumes "userRole = Prison_Admin \<or> userRole = Super_Admin"
    and "findPrisoner d prisonerId = Some p"
    and "checkPrisonAccess userPrisonId (p_prison_id p) userRole"
    and "findPrison d targetPrisonId = Some pr"
    and "int (countActive d targetPrisonId) < capacity pr"
  shows "succeeded (transferPrisoner prisonerId targetPrisonId transferReason userPrisonId
                      userRole userId d)
         \<and> statusAndPrison
              (committed d (transferPrisoner prisonerId targetPrisonId transferReason
                              userPrisonId userRole userId d)) prisonerId
           = Some (Active, targetPrisonId, actual_release_date p)"
proof -
  have run: "transferPrisoner prisonerId targetPrisonId transferReason userPrisonId userRole
               userId d
             = Inr (updatePrisonerRow prisonerId
                      (\<lambda>r. r\<lparr>p_prison_id := targetPrisonId, status := Active\<rparr>) d)"
    using assms unfolding transferPrisoner_def by (auto simp: Let_def)
  show ?thesis
    unfolding run
    by (simp add: succeeded_def committed_def statusAndPrison_def
          findPrisoner_updated[OF assms(2)])
qed

text \<open>releasePrisoner: the guard it has, and its effect on any other status.\<close>

lemma releasePrisoner_already_released:
  assumes "findPrisoner d prisonerId = Some p" "status p = Released"
  shows "releasePrisoner prisonerId releaseReason releaseNotes userPrisonId userRole userId now d
           = Inl (if userRole \<noteq> Prison_Admin \<and> userRole \<noteq> Super_Admin
                  then Only_admin_can_release_prisoners
                  else if \<not> checkPrisonAccess userPrisonId (p_prison_id p) userRole
                  then No_access_to_this_prisoner
                  else Prisoner_is_already_released)"
  using assms unfolding releasePrisoner_def by simp

lemma releasePrisoner_not_released:
  assumes "userRole = Prison_Admin \<or> userRole = Super_Admin"
    and "findPrisoner d prisonerId = Some p"
    and "checkPrisonAccess userPrisonId (p_prison_id p) userRole"
    and "status p \<noteq> Released"
  shows "succeeded (releasePrisoner prisonerId releaseReason releaseNotes userPrisonId
                      userRole userId now d)
         \<and> statusAndPrison
              (committed d (releasePrisoner prisonerId releaseReason releaseNotes
                              userPrisonId userRole userId now d)) prisonerId
           = Some (Released, p_prison_id p, Some now)"
proof -
  have run: "releasePrisoner prisonerId releaseReason releaseNotes userPrisonId userRole
               userId now d
             = Inr (updatePrisonerRow prisonerId
                      (\<lambda>r. r\<lparr>status := Released, actual_release_date := Some now\<rparr>) d)"
    using assms unfolding releasePrisoner_def by auto
  show ?thesis
    unfolding run
    by (simp add: succeeded_def committed_def statusAndPrison_def
          findPrisoner_updated[OF assms(2)])
qed

lemma deletePrisoner_any_status:
  assumes "userRole = Prison_Admin \<or> userRole = Super_Admin"
    and "findPrisoner d prisonerId = Some p"
    and "checkPrisonAccess userPrisonId (p_prison_id p) userRole"
  shows "succeeded (deletePrisoner prisonerId reason userPrisonId userRole userId now d)
         \<and> statusAndPrison
              (committed d (deletePrisoner prisonerId reason userPrisonId userRole userId now d))
              prisonerId
           = Some (if reason = ''deceased'' then Deceased else Released, p_prison_id p, Some now)"
proof -
  have run: "deletePrisoner prisonerId reason userPrisonId userRole userId now d
             = Inr (updatePrisonerRow prisonerId
                      (\<lambda>r. r\<lparr>status := (if reason = ''deceased'' then Deceased else Released),
                             actual_release_date := Some now\<rparr>) d)"
    using assms unfolding deletePrisoner_def by (auto simp: Let_def)
  show ?thesis
    unfolding run
    by (simp add: succeeded_def committed_def statusAndPrison_def
          findPrisoner_updated[OF assms(2)])
qed

text \<open>
  C2.  The claim: transferPrisoner succeeds only for an Active person, and a transfer of
  a Released, Transferred or Deceased person fails and leaves the person unchanged.
  transferPrisoner never reads the status: the transfer of the Released prisoner 2 and
  of the Deceased prisoner 3 of \<open>lifecycle_db\<close> to prison 2 commits, and both are
  Active in prison 2 afterwards.
\<close>

theorem C2_transfer_of_released:
  "statusAndPrison lifecycle_db 2 = Some (Released, 1, Some 20000)
   \<and> succeeded (transferPrisoner 2 2 ''court order'' (Some 1) Prison_Admin 9 lifecycle_db)
   \<and> statusAndPrison (committed lifecycle_db
         (transferPrisoner 2 2 ''court order'' (Some 1) Prison_Admin 9 lifecycle_db)) 2
       = Some (Active, 2, Some 20000)
   \<and> statusAndPrison lifecycle_db 3 = Some (Deceased, 1, Some 20010)
   \<and> succeeded (transferPrisoner 3 2 ''court order'' (Some 1) Prison_Admin 9 lifecycle_db)
   \<and> statusAndPrison (committed lifecycle_db
         (transferPrisoner 3 2 ''court order'' (Some 1) Prison_Admin 9 lifecycle_db)) 3
       = Some (Active, 2, Some 20010)"
  by (simp add: lifecycle_simps transferPrisoner_def)

text \<open>
  C3.  The claim: release and decease succeed only from Active, and fail on a person
  already Released or Deceased, leaving status and actualReleaseDate unchanged.
  releasePrisoner rejects only the status Released, and deletePrisoner checks no status:
  on day 20100 the release of the Deceased prisoner 3 commits (Released, date 20100),
  and deletePrisoner on the Released prisoner 2 and on the Deceased prisoner 3 commits
  and overwrites status and actual_release_date.
\<close>

theorem C3_release_after_terminal:
  "succeeded (releasePrisoner 3 ''sentence served'' [] (Some 1) Prison_Admin 9 20100 lifecycle_db)
   \<and> statusAndPrison (committed lifecycle_db
         (releasePrisoner 3 ''sentence served'' [] (Some 1) Prison_Admin 9 20100 lifecycle_db)) 3
       = Some (Released, 1, Some 20100)
   \<and> succeeded (deletePrisoner 2 ''deceased'' (Some 1) Prison_Admin 9 20100 lifecycle_db)
   \<and> statusAndPrison (committed lifecycle_db
         (deletePrisoner 2 ''deceased'' (Some 1) Prison_Admin 9 20100 lifecycle_db)) 2
       = Some (Deceased, 1, Some 20100)
   \<and> succeeded (deletePrisoner 2 ''released'' (Some 1) Prison_Admin 9 20100 lifecycle_db)
   \<and> statusAndPrison (committed lifecycle_db
         (deletePrisoner 2 ''released'' (Some 1) Prison_Admin 9 20100 lifecycle_db)) 2
       = Some (Released, 1, Some 20100)
   \<and> succeeded (deletePrisoner 3 ''deceased'' (Some 1) Prison_Admin 9 20100 lifecycle_db)
   \<and> statusAndPrison (committed lifecycle_db
         (deletePrisoner 3 ''deceased'' (Some 1) Prison_Admin 9 20100 lifecycle_db)) 3
       = Some (Deceased, 1, Some 20100)"
  by (simp add: lifecycle_simps releasePrisoner_def deletePrisoner_def)

section \<open>Visit scheduling (visitService)\<close>

lemma visit_day: "days_from_civil 2025 1 10 = 20098"
  by (simp add: days_from_civil_def)

lemma visit_A_booked_eq:
  "visit_A_booked = visit_db\<lparr>visits :=
      [\<lparr>visit_id = 1, v_prisoner_id = 1, v_visitor_id = 1, visit_date = 20098,
        visit_time_start = 32400, visit_time_end = 34200, v_status = Scheduled,
        approved_by = Some 7, v_notes = None\<rparr>], next_visit_id := 2\<rparr>"
  by (simp add: visit_A_booked_def visit_simps)

lemma visit_A_cancelled_eq:
  "visit_A_cancelled = visit_db\<lparr>visits :=
      [\<lparr>visit_id = 1, v_prisoner_id = 1, v_visitor_id = 1, visit_date = 20098,
        visit_time_start = 32400, visit_time_end = 34200, v_status = Cancelled,
        approved_by = Some 7, v_notes = None\<rparr>], next_visit_id := 2\<rparr>"
  by (simp add: visit_A_cancelled_def visit_A_booked_eq) (simp add: visit_simps)

lemma visit_B_booked_eq:
  "visit_B_booked = visit_db\<lparr>visits :=
      [\<lparr>visit_id = 1, v_prisoner_id = 1, v_visitor_id = 1, visit_date = 20098,
        visit_time_start = 32400, visit_time_end = 34200, v_status = Cancelled,
        approved_by = Some 7, v_notes = None\<rparr>,
       \<lparr>visit_id = 2, v_prisoner_id = 1, v_visitor_id = 2, visit_date = 20098,
        visit_time_start = 33300, visit_time_end = 35100, v_status = Scheduled,
        approved_by = Some 7, v_notes = None\<rparr>], next_visit_id := 3\<rparr>"
  by (simp add: visit_B_booked_def visit_A_cancelled_eq) (simp add: visit_simps)

lemma visit_A_rescheduled_eq:
  "visit_A_rescheduled = visit_db\<lparr>visits :=
      [\<lparr>visit_id = 1, v_prisoner_id = 1, v_visitor_id = 1, visit_date = 20098,
        visit_time_start = 32400, visit_time_end = 34200, v_status = Scheduled,
        approved_by = Some 7, v_notes = None\<rparr>,
       \<lparr>visit_id = 2, v_prisoner_id = 1, v_visitor_id = 2, visit_date = 20098,
        visit_time_start = 33300, visit_time_end = 35100, v_status = Scheduled,
        approved_by = Some 7, v_notes = None\<rparr>], next_visit_id := 3\<rparr>"
  by (simp add: visit_A_rescheduled_def visit_B_booked_eq) (simp add: visit_simps)

lemma timeConflict_closed:
  assumes "timeStart \<le> timeEnd" "visit_time_start r \<le> visit_time_end r"
  shows "timeConflict timeStart timeEnd r
         = (visit_time_start r \<le> timeEnd \<and> timeStart \<le> visit_time_end r)"
  using assms unfolding timeConflict_def by auto

text \<open>
  Where the conflict query stands in scheduleVisit: for an Active prisoner the caller may
  access and a known visitor, the call throws the conflict error exactly when the query
  finds a visit, and commits otherwise.
\<close>

lemma scheduleVisit_conflict:
  assumes "findPrisoner d (vd_prisoner_id visitData) = Some p" "status p = Active"
    and "checkPrisonAccess userPrisonId (p_prison_id p) userRole"
    and "vd_visitor_id visitData \<in> set (visitors d)"
  shows "scheduleVisit visitData userId userPrisonId userRole d =
           (if provided (conflictingVisit d None (vd_prisoner_id visitData)
                           (vd_visit_date visitData) (vd_visit_time_start visitData)
                           (vd_visit_time_end visitData))
            then Inl Visit_time_conflict
            else Inr (committed d (scheduleVisit visitData userId userPrisonId userRole d)))"
  using assms unfolding scheduleVisit_def
  by (auto simp: provided_def committed_def Let_def split: option.splits)

text \<open>
  C7, the claim as stated fails.  With visit A 09:00-09:30 Scheduled for prisoner 1 on
  day 20098, scheduling the back-to-back window 09:30-10:00 for the same prisoner and
  date is rejected with the conflict error, although no Scheduled visit overlaps that
  window in the half-open sense.
\<close>

theorem C7_back_to_back_rejected:
  "scheduleVisit (booking 2 (hm 9 30) (hm 10 0)) 7 (Some 1) Visitor_Manager visit_A_booked
     = Inl Visit_time_conflict
   \<and> [r \<leftarrow> visits visit_A_booked. v_prisoner_id r = 1 \<and> visit_date r = 20098
         \<and> v_status r = Scheduled
         \<and> visit_time_start r < hm 10 0 \<and> visit_time_end r > hm 9 30] = []"
  by (simp add: visit_A_booked_eq) (simp add: visit_simps)

text \<open>
  C7, amended.  For a requested window with start \<open>\<le>\<close> end and stored windows with
  start \<open>\<le>\<close> end, the conflict query of scheduleVisit and updateVisit finds a visit if and
  only if some other Scheduled visit of the same prisoner on the same date overlaps the
  requested window with both ends included: existing start \<open>\<le>\<close> requested end and
  requested start \<open>\<le>\<close> existing end.  (\<open>otherThan\<close> is the exclusion of the visit being
  updated.)
\<close>

theorem C7_conflict_iff_closed_overlap:
  assumes "timeStart \<le> timeEnd"
    and "list_all (\<lambda>r. visit_time_start r \<le> visit_time_end r) (visits d)"
  shows "provided (conflictingVisit d excludeVisitId prisonerId visitDate timeStart timeEnd)
         = (\<exists>r\<in>set (visits d). otherThan excludeVisitId r
              \<and> v_prisoner_id r = prisonerId \<and> visit_date r = visitDate
              \<and> v_status r = Scheduled
              \<and> visit_time_start r \<le> timeEnd \<and> timeStart \<le> visit_time_end r)"
proof -
  have wf: "\<And>r. r \<in> set (visits d) \<Longrightarrow> visit_time_start r \<le> visit_time_end r"
    using assms(2) by (simp add: list_all_iff)
  show ?thesis
    unfolding conflictingVisit_def provided_find otherThan_def
    using timeConflict_closed[OF assms(1) wf] by blast
qed

theorem C7_conflict_iff_closed_overlap_witness:
  "hm 9 15 \<le> hm 9 45 \<and> hm 9 30 \<le> hm 10 0
   \<and> list_all (\<lambda>r. visit_time_start r \<le> visit_time_end r) (visits visit_A_booked)
   \<and> provided (conflictingVisit visit_A_booked None 1 20098 (hm 9 15) (hm 9 45))
   \<and> provided (conflictingVisit visit_A_booked None 1 20098 (hm 9 30) (hm 10 0))
   \<and> \<not> provided (conflictingVisit visit_A_booked None 1 20098 (hm 9 31) (hm 10 0))
   \<and> \<not> provided (conflictingVisit visit_A_booked (Some 1) 1 20098 (hm 9 15) (hm 9 45))"
  using C7_conflict_iff_closed_overlap [of "hm 9 15" "hm 9 45" visit_A_booked None 1 20098]
    C7_conflict_iff_closed_overlap [of "hm 9 30" "hm 10 0" visit_A_booked None 1 20098]
    C7_conflict_iff_closed_overlap [of "hm 9 31" "hm 10 0" visit_A_booked None 1 20098]
    C7_conflict_iff_closed_overlap [of "hm 9 15" "hm 9 45" visit_A_booked "Some 1" 1 20098]
  by (simp add: visit_A_booked_eq hm_def visit_db_def otherThan_def)

text \<open>scheduleVisit keeps the Scheduled visits free of overlap.\<close>

lemma overlappingScheduled_Nil:
  "(overlappingScheduled d = []) =
     (\<forall>a\<in>set (visits d). \<forall>b\<in>set (visits d).
        \<not> (visit_id a < visit_id b \<and> v_prisoner_id a = v_prisoner_id b
           \<and> visit_date a = visit_date b \<and> v_status a = Scheduled \<and> v_status b = Scheduled
           \<and> windowsOverlap a b))"
  unfolding overlappingScheduled_def by (auto simp: concat_eq_Nil_conv)

lemma windowsOverlap_timeConflict:
  "visit_time_start r < timeEnd \<Longrightarrow> timeStart < visit_time_end r
   \<Longrightarrow> timeConflict timeStart timeEnd r"
  unfolding timeConflict_def by auto

lemma scheduleVisit_keeps_no_overlap:
  assumes inv: "overlappingScheduled d = []"
    and ok: "scheduleVisit visitData userId userPrisonId userRole d = Inr d'"
  shows "overlappingScheduled d' = []"
proof -
  let ?new = "\<lparr>visit_id = next_visit_id d,
                  v_prisoner_id = vd_prisoner_id visitData,
                  v_visitor_id = vd_visitor_id visitData,
                  visit_date = vd_visit_date visitData,
                  visit_time_start = vd_visit_time_start visitData,
                  visit_time_end = vd_visit_time_end visitData,
                  v_status = Scheduled,
                  approved_by = Some userId,
                  v_notes = (if truthy_str (vd_notes visitData)
                             then vd_notes visitData else None)\<rparr>"
  from ok have vs: "visits d' = visits d @ [?new]"
    and none: "conflictingVisit d None (vd_prisoner_id visitData) (vd_visit_date visitData)
                 (vd_visit_time_start visitData) (vd_visit_time_end visitData) = None"
    unfolding scheduleVisit_def by (auto split: option.splits if_splits simp: Let_def)
  have free: "\<not> timeConflict (vd_visit_time_start visitData) (vd_visit_time_end visitData) r"
    if "r \<in> set (visits d)" "v_prisoner_id r = vd_prisoner_id visitData"
      "visit_date r = vd_visit_date visitData" "v_status r = Scheduled" for r
    using none that unfolding conflictingVisit_def find_None_iff by auto
  have no: "\<not> windowsOverlap r ?new \<and> \<not> windowsOverlap ?new r"
    if "r \<in> set (visits d)" "v_prisoner_id r = vd_prisoner_id visitData"
      "visit_date r = vd_visit_date visitData" "v_status r = Scheduled" for r
    using free[OF that] windowsOverlap_timeConflict[of r "vd_visit_time_end visitData"
        "vd_visit_time_start visitData"]
    by (auto simp: windowsOverlap_def)
  show ?thesis
    using inv no unfolding overlappingScheduled_Nil vs by auto
qed

text \<open>
  C8.  The claim: no sequence of visit operations leaves two Scheduled visits of one
  prisoner on one date with overlapping windows, also when a Cancelled visit is set
  back to Scheduled.  scheduleVisit and updateVisit run the conflict query,
  updateVisitStatus does not: A 09:00-09:30 is booked and cancelled, B 09:15-09:45 is
  booked (no conflict, A is Cancelled), and updateVisitStatus sets A back to Scheduled.
  Every call commits, and the last store holds the overlapping Scheduled visits 1 and 2.
\<close>

theorem C8_rescheduling_overlaps:
  "succeeded (scheduleVisit (booking 1 (hm 9 0) (hm 9 30)) 7 (Some 1) Visitor_Manager visit_db)
   \<and> succeeded (updateVisitStatus 1 ''Cancelled'' None (Some 1) Visitor_Manager visit_A_booked)
   \<and> succeeded (scheduleVisit (booking 2 (hm 9 15) (hm 9 45)) 7 (Some 1) Visitor_Manager
                   visit_A_cancelled)
   \<and> overlappingScheduled visit_B_booked = []
   \<and> succeeded (updateVisitStatus 1 ''Scheduled'' None (Some 1) Visitor_Manager visit_B_booked)
   \<and> overlappingScheduled visit_A_rescheduled = [(1, 2)]"
  by (simp add: visit_A_rescheduled_eq visit_B_booked_eq visit_A_cancelled_eq visit_A_booked_eq
        overlappingScheduled_def windowsOverlap_def)
     (simp add: visit_simps)

















section \<open>Sentence adjustments (behaviourService)\<close>

lemmas behaviour_simps = committed_def succeeded_def inmate_def behaviour_db_def days_only_def
  adjustmentOf_def adjustmentStatusOf_def expectedReleaseOf_def findBehaviourRecord_def
  findPrisoner_def checkPrisonAccess_def truthy_str_def includePrisoner_def
  updateBehaviourRow_def updatePrisonerRow_def days_from_civil_def localDay_def
  shiftedEndDate_def tz_Colombo_def tz_UTC_def tz_New_York_def

lemma findBehaviourRecord_key: "findBehaviourRecord d k = Some br \<Longrightarrow> behaviour_id br = k"
  by (auto simp: findBehaviourRecord_def find_Some_iff)

lemma approve_cases:
  assumes rec: "findBehaviourRecord d k = Some br"
    and own: "findPrisoner d (b_prisoner_id br) = Some p"
  shows "approveSentenceAdjustment k notes userPrisonId userRole now tz d =
           (if \<not> checkPrisonAccess userPrisonId (p_prison_id p) userRole
            then Inl No_access_to_this_behaviour_record
            else if adjustment_status br \<noteq> Pending then Inl No_pending_sentence_adjustment
            else if sentence_adjustment_days br = 0 then Inl No_sentence_adjustment_to_approve
            else Inr (approvedStore k notes now tz br p d))"
  by (simp add: approveSentenceAdjustment_def rec findPrisoner_includePrisoner[OF own]
        approvedStore_def Let_def)

lemma approvedStore_record:
  assumes rec: "findBehaviourRecord d k = Some br"
  shows "findBehaviourRecord (approvedStore k notes now tz br p d) j =
           map_option (\<lambda>r. if behaviour_id r = k
                           then r\<lparr>adjustment_status := Approved,
                                  adjustment_approved_at := Some now,
                                  b_notes := (if truthy_str notes then notes else b_notes r)\<rparr>
                           else r)
             (findBehaviourRecord d j)"
  unfolding approvedStore_def findBehaviourRecord_def updateBehaviourRow_def
  by (cases "expected_release_date p")
     (simp_all add: find_rewritten[where key = behaviour_id] updatePrisonerRow_def)

lemma approvedStore_prisoner:
  assumes own: "findPrisoner d (b_prisoner_id br) = Some p"
  shows "findPrisoner (approvedStore k notes now tz br p d) (b_prisoner_id br) =
           Some (p\<lparr>expected_release_date :=
                     map_option (\<lambda>e. shiftedEndDate tz e (sentence_adjustment_days br))
                       (expected_release_date p)\<rparr>)"
proof (cases "expected_release_date p")
  case None
  then show ?thesis
    using own by (simp add: approvedStore_def findPrisoner_def updateBehaviourRow_def)
next
  case (Some e)
  have "prisoner_id p = b_prisoner_id br" using findPrisoner_key[OF own] .
  then show ?thesis
    using own Some
    by (simp add: approvedStore_def findPrisoner_def updateBehaviourRow_def
          updatePrisonerRow_def find_rewritten[where key = prisoner_id])
qed

lemma localDay_east: "0 \<le> tz \<Longrightarrow> tz < 1440 \<Longrightarrow> localDay tz day = day"
  by (simp add: localDay_def)

lemma localDay_west: "- 1440 \<le> tz \<Longrightarrow> tz < 0 \<Longrightarrow> localDay tz day = day - 1"
  by (simp add: localDay_def)

text \<open>
  What an approval commits, for a Pending record with a non-zero day count whose
  prisoner the caller may access: the record is Approved with
  \<open>adjustment_approved_at = now\<close>, and a non-null expected release date becomes the
  local day of its midnight UTC plus the day count; a null date stays null.  At UTC and
  east of it that is the stored day plus the day count, west of UTC one day less.
\<close>

lemma approval_effect:
  assumes rec: "findBehaviourRecord d k = Some br"
    and pending: "adjustment_status br = Pending"
    and days: "sentence_adjustment_days br \<noteq> 0"
    and own: "findPrisoner d (b_prisoner_id br) = Some p"
    and access: "checkPrisonAccess userPrisonId (p_prison_id p) userRole"
  shows "succeeded (approveSentenceAdjustment k notes userPrisonId userRole now tz d)
         \<and> adjustmentOf
              (committed d (approveSentenceAdjustment k notes userPrisonId userRole now tz d)) k
             = Some (Approved, Some now)
         \<and> expectedReleaseOf
              (committed d (approveSentenceAdjustment k notes userPrisonId userRole now tz d))
              (b_prisoner_id br)
             = Some (map_option (\<lambda>e. shiftedEndDate tz e (sentence_adjustment_days br))
                       (expected_release_date p))"
proof -
  have run: "approveSentenceAdjustment k notes userPrisonId userRole now tz d
               = Inr (approvedStore k notes now tz br p d)"
    using approve_cases[OF rec own] pending days access by simp
  have key: "behaviour_id br = k" using findBehaviourRecord_key[OF rec] .
  have r: "adjustmentOf (approvedStore k notes now tz br p d) k = Some (Approved, Some now)"
    by (simp add: adjustmentOf_def approvedStore_record[OF rec] rec key)
  have e: "expectedReleaseOf (approvedStore k notes now tz br p d) (b_prisoner_id br)
             = Some (map_option (\<lambda>e. shiftedEndDate tz e (sentence_adjustment_days br))
                       (expected_release_date p))"
    by (simp add: expectedReleaseOf_def approvedStore_prisoner[OF own])
  show ?thesis
    using r e by (simp add: run succeeded_def committed_def)
qed

lemma approval_shift_east_of_UTC:
  assumes "findBehaviourRecord d k = Some br" "adjustment_status br = Pending"
    "sentence_adjustment_days br \<noteq> 0" "findPrisoner d (b_prisoner_id br) = Some p"
    "checkPrisonAccess userPrisonId (p_prison_id p) userRole"
    and east: "0 \<le> tz" "tz < 1440"
  shows "expectedReleaseOf
           (committed d (approveSentenceAdjustment k notes userPrisonId userRole now tz d))
           (b_prisoner_id br)
         = Some (map_option (\<lambda>e. e + sentence_adjustment_days br) (expected_release_date p))"
  using approval_effect[OF assms(1-5)] east
  by (simp add: shiftedEndDate_def localDay_east)

lemma approval_shift_west_of_UTC:
  assumes "findBehaviourRecord d k = Some br" "adjustment_status br = Pending"
    "sentence_adjustment_days br \<noteq> 0" "findPrisoner d (b_prisoner_id br) = Some p"
    "checkPrisonAccess userPrisonId (p_prison_id p) userRole"
    and west: "- 1440 \<le> tz" "tz < 0"
  shows "expectedReleaseOf
           (committed d (approveSentenceAdjustment k notes userPrisonId userRole now tz d))
           (b_prisoner_id br)
         = Some (map_option (\<lambda>e. e - 1 + sentence_adjustment_days br)
                   (expected_release_date p))"
  using approval_effect[OF assms(1-5)] west
  by (simp add: shiftedEndDate_def localDay_west)

text \<open>
  C4.  The claim: approval of a Pending record with a non-zero day count marks it
  Approved with approvedAt set and moves the expected release date by exactly the day
  count, 2025-06-01 with -10 days becoming 2025-05-22; a null date is skipped without
  error.  The code parses the stored day as midnight UTC and then shifts and writes the
  day in the server's local time.  With the server's clock at New York's offset, the
  approval of record 1 of \<open>behaviour_db\<close> (-10 days, prisoner 1 expecting release on
  2025-06-01) commits and marks the record Approved, and the stored date is 2025-05-21:
  eleven days earlier.  At Colombo's offset and at UTC the same call stores 2025-05-22.
  The record of prisoner 2, whose date is null, is Approved and the date stays null.
\<close>

theorem C4_west_of_UTC_one_day_early:
  "expectedReleaseOf behaviour_db 1 = Some (Some (days_from_civil 2025 6 1))
   \<and> succeeded
        (approveSentenceAdjustment 1 None (Some 1) Prison_Admin 20200 tz_New_York behaviour_db)
   \<and> adjustmentOf (committed behaviour_db
         (approveSentenceAdjustment 1 None (Some 1) Prison_Admin 20200 tz_New_York
            behaviour_db)) 1
       = Some (Approved, Some 20200)
   \<and> expectedReleaseOf (committed behaviour_db
         (approveSentenceAdjustment 1 None (Some 1) Prison_Admin 20200 tz_New_York
            behaviour_db)) 1
       = Some (Some (days_from_civil 2025 5 21))
   \<and> expectedReleaseOf (committed behaviour_db
         (approveSentenceAdjustment 1 None (Some 1) Prison_Admin 20200 tz_Colombo
            behaviour_db)) 1
       = Some (Some (days_from_civil 2025 5 22))
   \<and> expectedReleaseOf (committed behaviour_db
         (approveSentenceAdjustment 1 None (Some 1) Prison_Admin 20200 tz_UTC
            behaviour_db)) 1
       = Some (Some (days_from_civil 2025 5 22))
   \<and> adjustmentOf (committed behaviour_db
         (approveSentenceAdjustment 2 None None Super_Admin 20200 tz_New_York behaviour_db)) 2
       = Some (Approved, Some 20200)
   \<and> expectedReleaseOf (committed behaviour_db
         (approveSentenceAdjustment 2 None None Super_Admin 20200 tz_New_York behaviour_db)) 2
       = Some None"
  by (simp add: approveSentenceAdjustment_def behaviour_simps)

lemma reject_throws:
  "rejectSentenceAdjustment k reason userPrisonId userRole d
     = (case findBehaviourRecord d k of
          None \<Rightarrow> Inl Behaviour_record_not_found
        | Some br \<Rightarrow> Inl TypeError_reading_property_of_undefined)"
  by (simp add: rejectSentenceAdjustment_def includePrisoner_def
        split: option.split)

lemma update_throws:
  "updateBehaviourRecord k updateData userPrisonId userRole d
     = (case findBehaviourRecord d k of
          None \<Rightarrow> Inl Behaviour_record_not_found
        | Some br \<Rightarrow> Inl TypeError_reading_property_of_undefined)"
  by (simp add: updateBehaviourRecord_def includePrisoner_def
        split: option.split)

text \<open>
  The approve half of the double-approval rule: on a record that is not Pending
  approveSentenceAdjustment throws before any write, and after an approval that commits a
  second approval of the same record, by any caller, throws; the expected release date
  is the one the first approval wrote.
\<close>

lemma approve_refuses_non_pending:
  assumes rec: "findBehaviourRecord d k = Some br"
    and own: "findPrisoner d (b_prisoner_id br) = Some p"
    and np: "adjustment_status br \<noteq> Pending"
  shows "approveSentenceAdjustment k notes userPrisonId userRole now tz d
           = Inl (if checkPrisonAccess userPrisonId (p_prison_id p) userRole
                  then No_pending_sentence_adjustment
                  else No_access_to_this_behaviour_record)"
  using approve_cases[OF rec own] np by simp

lemma second_approval_is_refused:
  assumes rec: "findBehaviourRecord d k = Some br"
    and own: "findPrisoner d (b_prisoner_id br) = Some p"
    and ok: "approveSentenceAdjustment k notes userPrisonId userRole now tz d = Inr d'"
  shows "approveSentenceAdjustment k notes' userPrisonId' userRole' now' tz' d'
           = Inl (if checkPrisonAccess userPrisonId' (p_prison_id p) userRole'
                  then No_pending_sentence_adjustment
                  else No_access_to_this_behaviour_record)
         \<and> expectedReleaseOf
              (committed d'
                 (approveSentenceAdjustment k notes' userPrisonId' userRole' now' tz' d'))
              (b_prisoner_id br)
             = Some (map_option (\<lambda>e. shiftedEndDate tz e (sentence_adjustment_days br))
                       (expected_release_date p))"
proof -
  have d': "d' = approvedStore k notes now tz br p d"
    using ok approve_cases[OF rec own, of "notes" userPrisonId userRole now tz]
    by (auto split: if_splits)
  have key: "behaviour_id br = k" using findBehaviourRecord_key[OF rec] .
  let ?br' = "br\<lparr>adjustment_status := Approved, adjustment_approved_at := Some now,
                  b_notes := (if truthy_str notes then notes else b_notes br)\<rparr>"
  let ?p' = "p\<lparr>expected_release_date :=
                   map_option (\<lambda>e. shiftedEndDate tz e (sentence_adjustment_days br))
                     (expected_release_date p)\<rparr>"
  have rec': "findBehaviourRecord d' k = Some ?br'"
    by (simp add: d' approvedStore_record[OF rec] rec key)
  have own': "findPrisoner d' (b_prisoner_id ?br') = Some ?p'"
    by (simp add: d' approvedStore_prisoner[OF own])
  have again: "approveSentenceAdjustment k notes' userPrisonId' userRole' now' tz' d'
                 = Inl (if checkPrisonAccess userPrisonId' (p_prison_id p) userRole'
                        then No_pending_sentence_adjustment
                        else No_access_to_this_behaviour_record)"
    using approve_refuses_non_pending[OF rec' own', of notes' userPrisonId' userRole' now' tz']
    by simp
  have "expectedReleaseOf d' (b_prisoner_id br)
          = Some (map_option (\<lambda>e. shiftedEndDate tz e (sentence_adjustment_days br))
                    (expected_release_date p))"
    using own' by (simp add: expectedReleaseOf_def)
  then show ?thesis using again by (simp add: committed_def)
qed

text \<open>
  C5.  The claim: on a record that is not Pending both approveSentenceAdjustment and
  rejectSentenceAdjustment fail with a typed error, the not-pending rejection, and leave
  the record and the release date unchanged; so a second approval applies nothing.
  approveSentenceAdjustment does so.  rejectSentenceAdjustment never reaches its
  not-pending guard (lines 614-617): its access check (line 610) reads
  \<open>behaviourRecord.prisoner.prison.prison_id\<close>, but its include loads the prisoner
  without the prison, so the call throws a TypeError on every stored record, whoever
  calls.  In \<open>behaviour_db\<close>: on the Rejected record 3 reject throws the TypeError for
  the admin of the prison and for the Super Admin, where approve throws the not-pending
  error; on record 1, once Approved, reject throws the TypeError; and on the Pending
  record 2 reject throws the TypeError too, so no adjustment can be rejected at all.
\<close>

theorem C5_reject_crashes_before_its_guard:
  "adjustmentStatusOf behaviour_db 3 = Some Rejected
   \<and> rejectSentenceAdjustment 3 (Some ''late'') (Some 1) Prison_Admin behaviour_db
       = Inl TypeError_reading_property_of_undefined
   \<and> rejectSentenceAdjustment 3 (Some ''late'') None Super_Admin behaviour_db
       = Inl TypeError_reading_property_of_undefined
   \<and> approveSentenceAdjustment 3 None (Some 1) Prison_Admin 20200 tz_Colombo behaviour_db
       = Inl No_pending_sentence_adjustment
   \<and> adjustmentStatusOf (committed behaviour_db
         (approveSentenceAdjustment 1 None (Some 1) Prison_Admin 20200 tz_Colombo
            behaviour_db)) 1
       = Some Approved
   \<and> rejectSentenceAdjustment 1 (Some ''late'') (Some 1) Prison_Admin
        (committed behaviour_db
           (approveSentenceAdjustment 1 None (Some 1) Prison_Admin 20200 tz_Colombo
              behaviour_db))
       = Inl TypeError_reading_property_of_undefined
   \<and> adjustmentStatusOf behaviour_db 2 = Some Pending
   \<and> rejectSentenceAdjustment 2 (Some ''late'') (Some 1) Prison_Admin behaviour_db
       = Inl TypeError_reading_property_of_undefined"
  by (simp add: reject_throws approveSentenceAdjustment_def behaviour_simps)

lemma allowedMove_refl: "allowedMove s s"
  by (cases s) simp_all

lemma allowedMove_trans: "allowedMove s s' \<Longrightarrow> allowedMove s' s'' \<Longrightarrow> allowedMove s s''"
  by (cases s; cases s'; cases s'') simp_all

lemma allowedMove_terminal:
  "allowedMove s s' \<Longrightarrow> s = Approved \<or> s = Rejected \<or> s = Not_Applicable \<Longrightarrow> s' = s"
  by (cases s; cases s') simp_all

lemma create_keeps_records:
  assumes "findBehaviourRecord d k = Some br"
  shows "findBehaviourRecord
           (committed d (createBehaviourRecord behaviourData userId userPrisonId userRole now d)) k
         = Some br"
  using assms unfolding createBehaviourRecord_def committed_def findBehaviourRecord_def
  by (auto split: option.split simp: Let_def find_appended)

lemma approve_moves:
  assumes rec: "findBehaviourRecord d k = Some br"
  shows "\<exists>br'. findBehaviourRecord
                 (committed d (approveSentenceAdjustment j notes userPrisonId userRole now tz d)) k
               = Some br'
             \<and> allowedMove (adjustment_status br) (adjustment_status br')"
proof (cases "approveSentenceAdjustment j notes userPrisonId userRole now tz d")
  case (Inl e)
  then show ?thesis using rec by (simp add: committed_def allowedMove_refl)
next
  case (Inr d')
  then obtain bj pj where recj: "findBehaviourRecord d j = Some bj"
    and ownj: "findPrisoner d (b_prisoner_id bj) = Some pj"
    unfolding approveSentenceAdjustment_def includePrisoner_def
    by (auto split: option.splits if_splits)
  from Inr approve_cases[OF recj ownj, of "notes" userPrisonId userRole now tz]
  have pend: "adjustment_status bj = Pending" and d': "d' = approvedStore j notes now tz bj pj d"
    by (auto split: if_splits)
  have key: "behaviour_id br = k" using findBehaviourRecord_key[OF rec] .
  have look: "findBehaviourRecord d' k =
      Some (if k = j
            then br\<lparr>adjustment_status := Approved, adjustment_approved_at := Some now,
                    b_notes := (if truthy_str notes then notes else b_notes br)\<rparr>
            else br)"
    unfolding d' approvedStore_record[OF recj] using rec key by simp
  show ?thesis
  proof (cases "j = k")
    case True
    then have "adjustment_status br = Pending" using rec recj pend by simp
    then show ?thesis
      using Inr look True by (simp add: committed_def)
  next
    case False
    then show ?thesis
      using Inr look by (simp add: committed_def allowedMove_refl)
  qed
qed

lemma behaviourStep_moves:
  assumes rec: "findBehaviourRecord d k = Some br"
  shows "\<exists>br'. findBehaviourRecord (behaviourStep c d) k = Some br'
             \<and> allowedMove (adjustment_status br) (adjustment_status br')"
proof (cases c)
  case (Create behaviourData userId userPrisonId userRole now)
  then show ?thesis using create_keeps_records[OF rec] by (simp add: allowedMove_refl)
next
  case (Update j updateData userPrisonId userRole)
  then show ?thesis
    using rec by (simp add: update_throws committed_def allowedMove_refl split: option.split)
next
  case (Approve j n userPrisonId userRole now tz)
  then show ?thesis using approve_moves[OF rec] by simp
next
  case (Reject j reason userPrisonId userRole)
  then show ?thesis
    using rec by (simp add: reject_throws committed_def allowedMove_refl split: option.split)
qed

text \<open>
  The status recomputation of updateBehaviourRecord (lines 451-458) would move a
  Rejected record back to Pending, and a Pending one to N/A; it stands behind the
  access check that always throws, so no call reaches it.
\<close>

lemma applyBehaviourUpdate_resets_status:
  "adjustment_status (applyBehaviourUpdate (days_only 4) r) = Pending"
  "adjustment_status (applyBehaviourUpdate (days_only 0) r) = Not_Applicable"
  by (simp_all add: applyBehaviourUpdate_def days_only_def)

text \<open>
  C6.  Along every sequence of createBehaviourRecord, updateBehaviourRecord,
  approveSentenceAdjustment and rejectSentenceAdjustment calls (any arguments, any
  callers, failed calls leaving the store as it was), the adjustment status of a stored
  record either stays what it was or has moved from Pending to Approved or Rejected;
  from Approved or Rejected it never moves.  In the code the only move that occurs is
  Pending to Approved: updateBehaviourRecord and rejectSentenceAdjustment throw at their
  access check on every stored record.
\<close>

theorem C6_adjustment_status_only_moves_forward:
  assumes "adjustmentStatusOf d k = Some s"
  shows "\<exists>s'. adjustmentStatusOf (behaviourRun cs d) k = Some s' \<and> allowedMove s s'
              \<and> (s = Approved \<or> s = Rejected \<longrightarrow> s' = s)"
proof -
  have run: "\<exists>s'. adjustmentStatusOf (behaviourRun cs d) k = Some s' \<and> allowedMove s s'"
    using assms
  proof (induction cs arbitrary: d s)
    case Nil
    then show ?case by (simp add: allowedMove_refl)
  next
    case (Cons c cs)
    from Cons.prems obtain br where rec: "findBehaviourRecord d k = Some br"
      and s: "adjustment_status br = s"
      by (auto simp: adjustmentStatusOf_def)
    from behaviourStep_moves[OF rec] obtain br' where
      rec': "findBehaviourRecord (behaviourStep c d) k = Some br'"
      and mv: "allowedMove s (adjustment_status br')"
      using s by blast
    have "adjustmentStatusOf (behaviourStep c d) k = Some (adjustment_status br')"
      using rec' by (simp add: adjustmentStatusOf_def)
    from Cons.IH[OF this] obtain s'' where
      "adjustmentStatusOf (behaviourRun cs (behaviourStep c d)) k = Some s''"
      "allowedMove (adjustment_status br') s''"
      by blast
    then show ?case using mv allowedMove_trans by auto
  qed
  then show ?thesis using allowedMove_terminal by blast
qed

theorem C6_adjustment_status_only_moves_forward_witness:
  "adjustmentStatusOf behaviour_db 1 = Some Pending
   \<and> adjustmentStatusOf behaviour_db 3 = Some Rejected
   \<and> adjustmentStatusOf
        (behaviourRun [Approve 1 None (Some 1) Prison_Admin 20200 tz_Colombo,
                       Update 1 (days_only 7) (Some 1) Prison_Admin,
                       Reject 1 (Some ''late'') (Some 1) Prison_Admin,
                       Update 3 (days_only 4) (Some 1) Prison_Admin,
                       Approve 3 None (Some 1) Prison_Admin 20201 tz_Colombo,
                       Approve 1 None (Some 1) Prison_Admin 20202 tz_Colombo] behaviour_db) 1
       = Some Approved
   \<and> adjustmentStatusOf
        (behaviourRun [Approve 1 None (Some 1) Prison_Admin 20200 tz_Colombo,
                       Update 1 (days_only 7) (Some 1) Prison_Admin,
                       Reject 1 (Some ''late'') (Some 1) Prison_Admin,
                       Update 3 (days_only 4) (Some 1) Prison_Admin,
                       Approve 3 None (Some 1) Prison_Admin 20201 tz_Colombo,
                       Approve 1 None (Some 1) Prison_Admin 20202 tz_Colombo] behaviour_db) 3
       = Some Rejected"
proof -
  have s1: "adjustmentStatusOf behaviour_db 1 = Some Pending"
    and s3: "adjustmentStatusOf behaviour_db 3 = Some Rejected"
    by (simp_all add: adjustmentStatusOf_def findBehaviourRecord_def behaviour_db_def)
  have run1: "adjustmentStatusOf
        (behaviourRun [Approve 1 None (Some 1) Prison_Admin 20200 tz_Colombo,
                       Update 1 (days_only 7) (Some 1) Prison_Admin,
                       Reject 1 (Some ''late'') (Some 1) Prison_Admin,
                       Update 3 (days_only 4) (Some 1) Prison_Admin,
                       Approve 3 None (Some 1) Prison_Admin 20201 tz_Colombo,
                       Approve 1 None (Some 1) Prison_Admin 20202 tz_Colombo] behaviour_db) 1
       = Some Approved"
    by (simp add: update_throws reject_throws approveSentenceAdjustment_def behaviour_simps)
  show ?thesis
    using s1 s3 run1
      C6_adjustment_status_only_moves_forward [OF s3,
        of "[Approve 1 None (Some 1) Prison_Admin 20200 tz_Colombo,
             Update 1 (days_only 7) (Some 1) Prison_Admin,
             Reject 1 (Some ''late'') (Some 1) Prison_Admin,
             Update 3 (days_only 4) (Some 1) Prison_Admin,
             Approve 3 None (Some 1) Prison_Admin 20201 tz_Colombo,
             Approve 1 None (Some 1) Prison_Admin 20202 tz_Colombo]"]
    by auto
qed

section \<open>Payments (workRecordService)\<close>



end
